theory Spec2Isabelle
  imports Complex_Main
begin

section \<open>Floating point numbers, integers and arrays\<close>

text \<open>
  A NumPy \<^verbatim>\<open>float64\<close> is a finite number, an infinity or not a number. The finite ones are
  given by their value. The model does not compute in floating point: what NumPy and nibabel
  compute from such numbers (a matrix applied to a point, the inverse of a matrix, a point
  rescaled) is read from the environment, as the files are, and the exact functions of this
  section only say what those computations approximate.
\<close>

datatype float64 = Finite real | PosInf | NegInf | NaN

text \<open>
  The coordinates of the sensors are a NumPy array of shape \<open>(N, 3)\<close>, of \<^verbatim>\<open>float64\<close> or,
  after \<^verbatim>\<open>astype(int)\<close>, of \<^verbatim>\<open>int64\<close>, whose values lie between \<open>- 2\<^sup>6\<^sup>3\<close> and
  \<open>2\<^sup>6\<^sup>3 - 1\<close>. A point is a row of either.
\<close>

type_synonym vec3 = "float64 \<times> float64 \<times> float64"
type_synonym ivec3 = "int \<times> int \<times> int"

datatype ndarray = FloatArray "vec3 list" | IntArray "ivec3 list"

datatype point = FloatPoint vec3 | IntPoint ivec3

fun points :: "ndarray \<Rightarrow> point list" where
  "points (FloatArray ps) = map FloatPoint ps"
| "points (IntArray ps) = map IntPoint ps"

fun is_int_array :: "ndarray \<Rightarrow> bool" where
  "is_int_array (FloatArray ps) = False"
| "is_int_array (IntArray ps) = True"

type_synonym row4 = "float64 \<times> float64 \<times> float64 \<times> float64"
type_synonym mat4 = "row4 \<times> row4 \<times> row4 \<times> row4"

section \<open>Exact affine maps\<close>

type_synonym rvec3 = "real \<times> real \<times> real"
type_synonym rrow4 = "real \<times> real \<times> real \<times> real"
type_synonym rmat4 = "rrow4 \<times> rrow4 \<times> rrow4 \<times> rrow4"

fun fvec :: "rvec3 \<Rightarrow> vec3" where
  "fvec (x, y, z) = (Finite x, Finite y, Finite z)"

fun frow :: "rrow4 \<Rightarrow> row4" where
  "frow (a, b, c, d) = (Finite a, Finite b, Finite c, Finite d)"

fun fmat :: "rmat4 \<Rightarrow> mat4" where
  "fmat (r1, r2, r3, r4) = (frow r1, frow r2, frow r3, frow r4)"

text \<open>The value of a point all of whose coordinates are finite.\<close>

fun point_value :: "point \<Rightarrow> rvec3 option" where
  "point_value (FloatPoint (Finite x, Finite y, Finite z)) = Some (x, y, z)"
| "point_value (IntPoint (i, j, k)) = Some (of_int i, of_int j, of_int k)"
| "point_value p = None"

text \<open>
  What \<^verbatim>\<open>nibabel.affines.apply_affine(aff, pts)\<close>, that is
  \<^verbatim>\<open>np.dot(pts, aff[:-1, :-1].T) + aff[:-1, -1]\<close>, computes for one point in exact
  arithmetic: only the first three rows of the $4 \times 4$ matrix are used.
\<close>

fun affine_pt :: "rmat4 \<Rightarrow> rvec3 \<Rightarrow> rvec3" where
  "affine_pt ((a11, a12, a13, a14), (a21, a22, a23, a24), (a31, a32, a33, a34), r4) (x, y, z) =
     (a11 * x + a12 * y + a13 * z + a14,
      a21 * x + a22 * y + a23 * z + a24,
      a31 * x + a32 * y + a33 * z + a34)"

text \<open>The product of a matrix with a homogeneous column vector.\<close>

fun mat_vec :: "rmat4 \<Rightarrow> rrow4 \<Rightarrow> rrow4" where
  "mat_vec ((a11, a12, a13, a14), (a21, a22, a23, a24), (a31, a32, a33, a34),
            (a41, a42, a43, a44)) (x, y, z, w) =
     (a11 * x + a12 * y + a13 * z + a14 * w,
      a21 * x + a22 * y + a23 * z + a24 * w,
      a31 * x + a32 * y + a33 * z + a34 * w,
      a41 * x + a42 * y + a43 * z + a44 * w)"

definition det3 ::
  "real \<Rightarrow> real \<Rightarrow> real \<Rightarrow> real \<Rightarrow> real \<Rightarrow> real \<Rightarrow> real \<Rightarrow> real \<Rightarrow> real \<Rightarrow> real" where
  "det3 a b c d e f g h i = a * (e * i - f * h) - b * (d * i - f * g) + c * (d * h - e * g)"

fun det4 :: "rmat4 \<Rightarrow> real" where
  "det4 ((a11, a12, a13, a14), (a21, a22, a23, a24), (a31, a32, a33, a34),
         (a41, a42, a43, a44)) =
     a11 * det3 a22 a23 a24 a32 a33 a34 a42 a43 a44
     - a12 * det3 a21 a23 a24 a31 a33 a34 a41 a43 a44
     + a13 * det3 a21 a22 a24 a31 a32 a34 a41 a42 a44
     - a14 * det3 a21 a22 a23 a31 a32 a33 a41 a42 a43"

text \<open>The adjugate: the transpose of the matrix of cofactors.\<close>

fun adjugate :: "rmat4 \<Rightarrow> rmat4" where
  "adjugate ((a11, a12, a13, a14), (a21, a22, a23, a24), (a31, a32, a33, a34),
             (a41, a42, a43, a44)) =
     ((  det3 a22 a23 a24 a32 a33 a34 a42 a43 a44,
       - det3 a12 a13 a14 a32 a33 a34 a42 a43 a44,
         det3 a12 a13 a14 a22 a23 a24 a42 a43 a44,
       - det3 a12 a13 a14 a22 a23 a24 a32 a33 a34),
      (- det3 a21 a23 a24 a31 a33 a34 a41 a43 a44,
         det3 a11 a13 a14 a31 a33 a34 a41 a43 a44,
       - det3 a11 a13 a14 a21 a23 a24 a41 a43 a44,
         det3 a11 a13 a14 a21 a23 a24 a31 a33 a34),
      (  det3 a21 a22 a24 a31 a32 a34 a41 a42 a44,
       - det3 a11 a12 a14 a31 a32 a34 a41 a42 a44,
         det3 a11 a12 a14 a21 a22 a24 a41 a42 a44,
       - det3 a11 a12 a14 a21 a22 a24 a31 a32 a34),
      (- det3 a21 a22 a23 a31 a32 a33 a41 a42 a43,
         det3 a11 a12 a13 a31 a32 a33 a41 a42 a43,
       - det3 a11 a12 a13 a21 a22 a23 a41 a42 a43,
         det3 a11 a12 a13 a21 a22 a23 a31 a32 a33))"

fun divide_row :: "rrow4 \<Rightarrow> real \<Rightarrow> rrow4" where
  "divide_row (a, b, c, d) k = (a / k, b / k, c / k, d / k)"

fun divide_mat :: "rmat4 \<Rightarrow> real \<Rightarrow> rmat4" where
  "divide_mat (r1, r2, r3, r4) k =
     (divide_row r1 k, divide_row r2 k, divide_row r3 k, divide_row r4 k)"

fun scale_vec :: "real \<Rightarrow> rrow4 \<Rightarrow> rrow4" where
  "scale_vec k (x, y, z, w) = (k * x, k * y, k * z, k * w)"

text \<open>The inverse in exact arithmetic: the adjugate divided by the determinant.\<close>

definition exact_inverse :: "rmat4 \<Rightarrow> rmat4 option" where
  "exact_inverse m = (if det4 m = 0 then None else Some (divide_mat (adjugate m) (det4 m)))"

text \<open>
  A matrix of an affine map in homogeneous coordinates has the last row \<open>(0, 0, 0, 1)\<close>;
  the matrices that \<^verbatim>\<open>nibabel\<close> builds from the header of an image have it.
\<close>

fun is_affine :: "rmat4 \<Rightarrow> bool" where
  "is_affine (r1, r2, r3, r4) = (r4 = (0, 0, 0, 1))"

section \<open>Errors and events\<close>

text \<open>
  The exceptions the two converters and their helpers can raise, one constructor for each
  raising site, under the name the specification gives it where it has one.
\<close>

datatype error =
    InvalidArgument         \<comment> \<open>\<^verbatim>\<open>ValueError\<close>: the target is not accepted\<close>
  | InvalidSensorsFrame     \<comment> \<open>\<^verbatim>\<open>ValueError\<close>: the tag of the sensors is not a frame\<close>
  | MissingReferenceImage   \<comment> \<open>\<^verbatim>\<open>RuntimeError\<close>: "Need IntendedFor Image filepath"\<close>
  | UnresolvableSubject     \<comment> \<open>\<^verbatim>\<open>RuntimeError\<close>: "Could not interpret the subject"\<close>
  | MissingSubjectData      \<comment> \<open>\<^verbatim>\<open>IOError\<close>: "mri not found"\<close>
  | FrameMismatch           \<comment> \<open>\<^verbatim>\<open>RuntimeError\<close>: "You are trying to convert data to MNI"\<close>
  | IscloseTypeError        \<comment> \<open>\<^verbatim>\<open>TypeError\<close> of \<^verbatim>\<open>np.isclose\<close> given an object\<close>
  | AmbiguousTruthValue     \<comment> \<open>\<^verbatim>\<open>ValueError\<close> of NumPy: truth value of an array\<close>
  | LoadTypeError           \<comment> \<open>\<^verbatim>\<open>TypeError\<close> of the image loader given \<^verbatim>\<open>None\<close>\<close>
  | FileNotFound            \<comment> \<open>the image loader finds no file at the path\<close>
  | JoinTypeError           \<comment> \<open>\<^verbatim>\<open>TypeError\<close> of \<^verbatim>\<open>os.path.join\<close> given \<^verbatim>\<open>None\<close>\<close>
  | LinAlgError             \<comment> \<open>\<^verbatim>\<open>np.linalg.inv\<close>: singular, or not a matrix\<close>
  | IndexError              \<comment> \<open>\<^verbatim>\<open>apply_affine\<close> given an object that is no matrix\<close>
  | TalxfmError             \<comment> \<open>\<^verbatim>\<open>read_talxfm\<close> cannot read the registration\<close>
  | UnknownUnit             \<comment> \<open>the scaling step does not know the unit\<close>

text \<open>What a call writes besides its result: the warning and the two \<^verbatim>\<open>print\<close>s.\<close>

datatype event =
    Warn_vox2ras_tkr_unavailable
  | Print_using_vox2tkras mat4
  | Print_converting string string "string option"

section \<open>Rounding, truth values and paths\<close>

text \<open>
  \<^verbatim>\<open>np.round\<close> rounds a finite number to the nearest integer, and a value halfway between
  two integers to the even one; an infinity and not-a-number stay what they are.
\<close>

definition np_round :: "real \<Rightarrow> int" where
  "np_round x =
     (let f = \<lfloor>x\<rfloor>; d = x - of_int f
      in if d < 1 / 2 then f
         else if 1 / 2 < d then f + 1
         else if even f then f else f + 1)"

fun np_rint :: "float64 \<Rightarrow> float64" where
  "np_rint (Finite r) = Finite (of_int (np_round r))"
| "np_rint PosInf = PosInf"
| "np_rint NegInf = NegInf"
| "np_rint NaN = NaN"

text \<open>
  \<^verbatim>\<open>astype(int)\<close> casts a \<^verbatim>\<open>float64\<close> to \<^verbatim>\<open>int64\<close>: it drops the fraction, and
  a value that does not fit, an infinity and not-a-number all give the smallest
  \<^verbatim>\<open>int64\<close> (the result of the conversion instruction of x86-64).
\<close>

definition INT64_MIN :: int where
  "INT64_MIN = - (2 ^ 63)"

fun astype_int :: "float64 \<Rightarrow> int" where
  "astype_int (Finite r) =
     (let n = (if 0 \<le> r then \<lfloor>r\<rfloor> else \<lceil>r\<rceil>)
      in if - (2 ^ 63) \<le> n \<and> n < 2 ^ 63 then n else INT64_MIN)"
| "astype_int PosInf = INT64_MIN"
| "astype_int NegInf = INT64_MIN"
| "astype_int NaN = INT64_MIN"

text \<open>\<^verbatim>\<open>np.round(elec_coords).astype(int)\<close>; an integer array is left as it is.\<close>

fun round_astype_int :: "ndarray \<Rightarrow> ndarray" where
  "round_astype_int (FloatArray ps) =
     IntArray (map (\<lambda>(x, y, z). (astype_int (np_rint x), astype_int (np_rint y),
                                   astype_int (np_rint z))) ps)"
| "round_astype_int (IntArray ps) = IntArray ps"

text \<open>
  The truth value Python takes of a NumPy array in \<^verbatim>\<open>if\<close> and \<^verbatim>\<open>not\<close>: that of
  its only element, and a \<^verbatim>\<open>ValueError\<close> ("The truth value of an array with more than
  one element is ambiguous. Use a.any() or a.all()") when it has more than one.
\<close>

fun truth_value :: "bool list \<Rightarrow> error + bool" where
  "truth_value [] = Inr False"
| "truth_value [b] = Inr b"
| "truth_value (b # c # bs) = Inl AmbiguousTruthValue"

text \<open>\<^verbatim>\<open>os.path.join(a, *p)\<close> of \<^verbatim>\<open>posixpath\<close>.\<close>

definition join_component :: "string \<Rightarrow> string \<Rightarrow> string" where
  "join_component path b =
     (if take 1 b = ''/'' then b
      else if path = [] \<or> last path = CHR ''/'' then path @ b
      else path @ ''/'' @ b)"

definition op_join :: "string \<Rightarrow> string list \<Rightarrow> string" where
  "op_join a p = foldl join_component a p"

section \<open>The collaborators: images, subject data, arithmetic, sensors\<close>

text \<open>
  An image as \<^verbatim>\<open>nibabel\<close> loads it: \<^verbatim>\<open>img.affine\<close>, and the result of
  \<^verbatim>\<open>img.header.get_vox2ras_tkr()\<close>, which is \<open>None\<close> for a header that has no such
  method (the call raises \<^verbatim>\<open>AttributeError\<close>).
\<close>

record image =
  affine :: mat4
  get_vox2ras_tkr :: "mat4 option"

text \<open>
  An \<^verbatim>\<open>mne.transforms.Transform\<close>: a dictionary with the two frames and the matrix under
  the key \<^verbatim>\<open>'trans'\<close>. \<^verbatim>\<open>_read_mri_info\<close> and \<^verbatim>\<open>read_talxfm\<close> return such
  objects, not arrays.
\<close>

record transform =
  from_frame :: string
  to_frame :: string
  trans_matrix :: mat4

text \<open>
  What the calls read from outside. The files: the images (\<^verbatim>\<open>nb.load\<close>), the subject
  entity of a file name (\<^verbatim>\<open>get_entities_from_fname(p).get("subject")\<close>), the files of the
  subjects directory (\<^verbatim>\<open>op.isfile\<close>), the third component of \<^verbatim>\<open>_read_mri_info\<close>
  and the registration read by \<^verbatim>\<open>read_talxfm\<close>. The floating point arithmetic of the
  libraries: one row of \<^verbatim>\<open>apply_affine\<close> (the point may be a row of integers, which
  \<^verbatim>\<open>np.dot\<close> converts), \<^verbatim>\<open>np.linalg.inv\<close> of a $4 \times 4$ array, which raises
  \<^verbatim>\<open>LinAlgError\<close> when it finds the matrix singular, and the rescaling of one point
  between two units, when the units are known.
\<close>

record env =
  images :: "string \<Rightarrow> image option"
  subject_entity :: "string \<Rightarrow> string option"
  isfile :: "string \<Rightarrow> bool"
  read_mri_info :: "string \<Rightarrow> transform"
  read_talxfm :: "string \<Rightarrow> string \<Rightarrow> error + transform"
  np_dot_affine :: "mat4 \<Rightarrow> point \<Rightarrow> vec3"
  np_linalg_inv :: "mat4 \<Rightarrow> error + mat4"
  scale_point :: "string \<Rightarrow> string \<Rightarrow> (point \<Rightarrow> vec3) option"

text \<open>
  \<^verbatim>\<open>nb.load\<close>: the loader checks the file with \<^verbatim>\<open>os.stat\<close>, which raises a
  \<^verbatim>\<open>TypeError\<close> when the path is \<^verbatim>\<open>None\<close>.
\<close>

definition nb_load :: "env \<Rightarrow> string option \<Rightarrow> error + image" where
  "nb_load env filename =
     (case filename of
        None \<Rightarrow> Inl LoadTypeError
      | Some p \<Rightarrow> (case images env p of None \<Rightarrow> Inl FileNotFound | Some img \<Rightarrow> Inr img))"

text \<open>
  \<^verbatim>\<open>apply_affine(aff, pts)\<close> for a $4 \times 4$ array: a new \<^verbatim>\<open>float64\<close> array, each
  row computed from the row of \<^verbatim>\<open>pts\<close> at the same place.
\<close>

definition apply_affine :: "env \<Rightarrow> mat4 \<Rightarrow> ndarray \<Rightarrow> ndarray" where
  "apply_affine env aff pts = FloatArray (map (np_dot_affine env aff) (points pts))"

text \<open>
  The three NumPy and nibabel calls of \<^verbatim>\<open>_handle_mni_trans\<close> that are given a
  \<^verbatim>\<open>Transform\<close> where an array is expected. \<^verbatim>\<open>np.isclose(a, b)\<close> makes of the
  dictionary a zero-dimensional array of objects, on which \<^verbatim>\<open>isfinite\<close> raises a
  \<^verbatim>\<open>TypeError\<close>; \<^verbatim>\<open>np.linalg.inv\<close> refuses a zero-dimensional array with a
  \<^verbatim>\<open>LinAlgError\<close>; \<^verbatim>\<open>apply_affine\<close> indexes it with two indices, an
  \<^verbatim>\<open>IndexError\<close>.
\<close>

definition np_isclose :: "mat4 \<Rightarrow> transform \<Rightarrow> error + bool list" where
  "np_isclose a b = Inl IscloseTypeError"

definition np_linalg_inv_transform :: "transform \<Rightarrow> error + mat4" where
  "np_linalg_inv_transform t = Inl LinAlgError"

definition apply_affine_transform :: "transform \<Rightarrow> ndarray \<Rightarrow> error + ndarray" where
  "apply_affine_transform t pts = Inl IndexError"

text \<open>
  Modelled from the spec: the constant \<^verbatim>\<open>MAPPING_COORD_FRAMES\<close> of
  \<^verbatim>\<open>seek_localize.config\<close> is not among the sources. The frames are those the
  specification and the docstring of \<^verbatim>\<open>convert_coord_space\<close> name: "Must be one of
  ['mri', 'tkras', 'mni']".
\<close>

definition MAPPING_COORD_FRAMES :: "string list" where
  "MAPPING_COORD_FRAMES = [''mri'', ''tkras'', ''mni'']"

text \<open>
  Modelled from the spec: the class \<^verbatim>\<open>Sensors\<close> of \<^verbatim>\<open>seek_localize\<close> is not
  among the sources. A point set is an ordered sequence of points with the names of the
  sensors, one coordinate tag and the path of the reference image; \<^verbatim>\<open>get_coords\<close>
  returns the coordinates and \<^verbatim>\<open>set_coords\<close> replaces them in the object.
\<close>

record sensors =
  ch_names :: "string list"
  coords :: ndarray
  coord_unit :: string
  intended_for :: "string option"

definition get_coords :: "sensors \<Rightarrow> ndarray" where
  "get_coords s = coords s"

definition set_coords :: "sensors \<Rightarrow> ndarray \<Rightarrow> sensors" where
  "set_coords s c = s\<lparr>coords := c\<rparr>"

text \<open>
  Modelled from the spec: the function \<^verbatim>\<open>_scale_coordinates\<close> of
  \<^verbatim>\<open>seek_localize.utils\<close> is not among the sources. It "rescales the input into
  millimeter units if it is tagged with a different physical-unit scale (e.g., centimeters)
  - a pure linear scale-factor step": nothing when the two units are the same, else every
  point rescaled, in its place.
\<close>

definition scale_coordinates :: "env \<Rightarrow> ndarray \<Rightarrow> string \<Rightarrow> string \<Rightarrow> error + ndarray" where
  "scale_coordinates env c from_unit to_unit =
     (if from_unit = to_unit then Inr c
      else case scale_point env from_unit to_unit of
             None \<Rightarrow> Inl UnknownUnit
           | Some f \<Rightarrow> Inr (FloatArray (map f (points c))))"

text \<open>
  Sensors are objects: a call receives a reference to one and returns a reference. The store
  holds the objects, a reference is an index into it, and a new object is put at its end.
\<close>

type_synonym ref = nat
type_synonym store = "sensors list"

record outcome =
  result :: "error + ref"
  store :: store
  events :: "event list"

section \<open>The transform resolvers\<close>

definition fallback_matrix :: rmat4 where
  "fallback_matrix =
     ((-1, 0, 0, 128),
      (0, 0, 1, -128),
      (0, -1, 0, 128),
      (0, 0, 0, 1))"

definition fallback_vox2ras_tkr :: mat4 where
  "fallback_vox2ras_tkr = fmat fallback_matrix"

text \<open>
  The \<^verbatim>\<open>try\<close> block of \<^verbatim>\<open>_handle_tkras_trans\<close>: the matrix of the header, or,
  when the header has no \<^verbatim>\<open>get_vox2ras_tkr\<close>, a warning and the hardcoded matrix.
\<close>

definition vox2ras_tkr_or_fallback :: "image \<Rightarrow> mat4 \<times> event list" where
  "vox2ras_tkr_or_fallback img =
     (case get_vox2ras_tkr img of
        Some m \<Rightarrow> (m, [])
      | None \<Rightarrow> (fallback_vox2ras_tkr, [Warn_vox2ras_tkr_unavailable]))"

text \<open>
  \<^verbatim>\<open>_handle_tkras_trans\<close>: the matrix, printed when verbose; its inverse when reverting;
  applied to the coordinates.
\<close>

definition handle_tkras_trans ::
  "env \<Rightarrow> ndarray \<Rightarrow> image \<Rightarrow> bool \<Rightarrow> bool \<Rightarrow> (error + ndarray) \<times> event list" where
  "handle_tkras_trans env elec_coords img revert_tkras verbose =
     (let (vox2ras_tkr, warned) = vox2ras_tkr_or_fallback img;
          printed = (if verbose then [Print_using_vox2tkras vox2ras_tkr] else []);
          aff = (if revert_tkras then np_linalg_inv env vox2ras_tkr else Inr vox2ras_tkr)
      in (case aff of
            Inl e \<Rightarrow> Inl e
          | Inr a \<Rightarrow> Inr (apply_affine env a elec_coords),
          warned @ printed))"

text \<open>
  \<^verbatim>\<open>_handle_mni_trans\<close>: the subject of the file name, the canonical volume of the
  subject (\<^verbatim>\<open>orig.mgz\<close>, else \<^verbatim>\<open>T1.mgz\<close>), the check of the image's affine against
  \<^verbatim>\<open>mri_ras_t\<close>, the registration, its inverse when reverting. The condition of the check
  is \<^verbatim>\<open>not np.isclose(intended_affine, mri_ras_t)\<close>, where \<^verbatim>\<open>mri_ras_t\<close> is the
  \<^verbatim>\<open>Transform\<close> that \<^verbatim>\<open>_read_mri_info\<close> returned and not its matrix, and the
  registration \<^verbatim>\<open>mri_mni_t\<close> is used in the same way.
\<close>

definition handle_mni_trans ::
  "env \<Rightarrow> ndarray \<Rightarrow> string \<Rightarrow> string option \<Rightarrow> bool \<Rightarrow> bool \<Rightarrow> error + ndarray" where
  "handle_mni_trans env elec_coords img_fpath subjects_dir revert_mni verbose =
     (case subject_entity env img_fpath of
        None \<Rightarrow> Inl UnresolvableSubject
      | Some subject \<Rightarrow>
          (case subjects_dir of
             None \<Rightarrow> Inl JoinTypeError
           | Some sdir \<Rightarrow>
               (let path0 = op_join sdir [subject, ''mri'', ''orig.mgz''];
                    path = (if \<not> isfile env path0
                            then op_join sdir [subject, ''mri'', ''T1.mgz''] else path0)
                in if \<not> isfile env path then Inl MissingSubjectData
                   else
                     (let mri_ras_t = read_mri_info env path
                      in case nb_load env (Some img_fpath) of
                           Inl e \<Rightarrow> Inl e
                         | Inr img \<Rightarrow>
                             (let intended_affine = affine img
                              in case np_isclose intended_affine mri_ras_t of
                                   Inl e \<Rightarrow> Inl e
                                 | Inr isclose \<Rightarrow>
                                     (case truth_value isclose of
                                        Inl e \<Rightarrow> Inl e
                                      | Inr close \<Rightarrow>
                                          if \<not> close then Inl FrameMismatch
                                          else
                                            (case read_talxfm env subject sdir of
                                               Inl e \<Rightarrow> Inl e
                                             | Inr mri_mni_t \<Rightarrow>
                                                 if revert_mni
                                                 then (case np_linalg_inv_transform mri_mni_t of
                                                         Inl e \<Rightarrow> Inl e
                                                       | Inr aff \<Rightarrow>
                                                           Inr (apply_affine env aff elec_coords))
                                                 else apply_affine_transform mri_mni_t
                                                        elec_coords)))))))"

section \<open>The converters\<close>

text \<open>
  \<^verbatim>\<open>Sensors(**sensors.__dict__)\<close> followed by \<^verbatim>\<open>set_coords\<close> and the assignment of
  \<^verbatim>\<open>coord_unit\<close>: a new object with the fields of the old one, the coordinates and the
  tag replaced. The object passed in is not written to.
\<close>

definition recreate_sensors :: "store \<Rightarrow> sensors \<Rightarrow> ndarray \<Rightarrow> string \<Rightarrow> event list \<Rightarrow> outcome" where
  "recreate_sensors st s elec_coords to_coord evs =
     \<lparr>result = Inr (length st),
      store = st @ [(set_coords s elec_coords)\<lparr>coord_unit := to_coord\<rparr>],
      events = evs\<rparr>"

definition raise :: "error \<Rightarrow> store \<Rightarrow> event list \<Rightarrow> outcome" where
  "raise e st evs = \<lparr>result = Inl e, store = st, events = evs\<rparr>"

text \<open>"first convert to standardized MRI coordinates"\<close>

definition to_mri_coords ::
  "env \<Rightarrow> sensors \<Rightarrow> string \<Rightarrow> image \<Rightarrow> string option \<Rightarrow> bool \<Rightarrow> (error + ndarray) \<times> event list" where
  "to_mri_coords env s img_fpath img subjects_dir verbose =
     (if coord_unit s = ''mni''
      then (handle_mni_trans env (get_coords s) img_fpath subjects_dir True verbose, [])
      else if coord_unit s = ''tkras''
      then handle_tkras_trans env (get_coords s) img True verbose
      else (Inr (get_coords s), []))"

text \<open>"next convert from standardized MRI coordinates -> desired coordinate system"\<close>

definition from_mri_coords ::
  "env \<Rightarrow> sensors \<Rightarrow> ndarray \<Rightarrow> string \<Rightarrow> string \<Rightarrow> image \<Rightarrow> string option \<Rightarrow> bool
     \<Rightarrow> (error + ndarray) \<times> event list" where
  "from_mri_coords env s elec_coords to_coord img_fpath img subjects_dir verbose =
     (if to_coord = ''mni''
      then (handle_mni_trans env elec_coords img_fpath subjects_dir False verbose, [])
      else if to_coord = ''tkras''
      then (case (if coord_unit s \<notin> set [''mri'', ''mni'']
                  then scale_coordinates env elec_coords (coord_unit s) ''mm''
                  else Inr elec_coords) of
              Inl e \<Rightarrow> (Inl e, [])
            | Inr c \<Rightarrow> handle_tkras_trans env c img False verbose)
      else (Inr elec_coords, []))"

definition convert_coord_space ::
  "env \<Rightarrow> store \<Rightarrow> ref \<Rightarrow> string \<Rightarrow> string option \<Rightarrow> bool \<Rightarrow> outcome" where
  "convert_coord_space env st r to_coord subjects_dir verbose =
     (let s = st ! r
      in if to_coord \<notin> set MAPPING_COORD_FRAMES then raise InvalidArgument st []
         else if coord_unit s \<notin> set MAPPING_COORD_FRAMES then raise InvalidSensorsFrame st []
         else if to_coord = coord_unit s then \<lparr>result = Inr r, store = st, events = []\<rparr>
         else
           (case intended_for s of
              None \<Rightarrow> raise MissingReferenceImage st []
            | Some img_fpath \<Rightarrow>
                (case nb_load env (Some img_fpath) of
                   Inl e \<Rightarrow> raise e st []
                 | Inr img \<Rightarrow>
                     (case to_mri_coords env s img_fpath img subjects_dir verbose of
                        (Inl e, ev1) \<Rightarrow> raise e st ev1
                      | (Inr mri_coords, ev1) \<Rightarrow>
                          (case from_mri_coords env s mri_coords to_coord img_fpath img
                                  subjects_dir verbose of
                             (Inl e, ev2) \<Rightarrow> raise e st (ev1 @ ev2)
                           | (Inr elec_coords, ev2) \<Rightarrow>
                               recreate_sensors st s elec_coords to_coord (ev1 @ ev2))))))"

text \<open>
  \<^verbatim>\<open>convert_coord_units\<close>. The image is loaded from \<^verbatim>\<open>sensors.intended_for\<close> as it
  is, and the affine is inverted, before the direction is looked at.
\<close>

definition convert_coord_units ::
  "env \<Rightarrow> store \<Rightarrow> ref \<Rightarrow> string \<Rightarrow> bool \<Rightarrow> bool \<Rightarrow> outcome" where
  "convert_coord_units env st r to_coord do_round verbose =
     (let s = st ! r
      in if to_coord \<notin> set [''mri'', ''mm''] then raise InvalidArgument st []
         else if to_coord = coord_unit s then \<lparr>result = Inr r, store = st, events = []\<rparr>
         else
           (let img_fpath = intended_for s
            in case nb_load env img_fpath of
                 Inl e \<Rightarrow> raise e st []
               | Inr img \<Rightarrow>
                   (case np_linalg_inv env (affine img) of
                      Inl e \<Rightarrow> raise e st []
                    | Inr inv_affine \<Rightarrow>
                        (let printed =
                               (if verbose
                                then [Print_converting (coord_unit s) to_coord img_fpath]
                                else [])
                         in case (if to_coord = ''mri''
                                  then (case scale_coordinates env (get_coords s)
                                               (coord_unit s) ''mm'' of
                                          Inl e \<Rightarrow> Inl e
                                        | Inr c \<Rightarrow> Inr (apply_affine env inv_affine c))
                                  else if to_coord = ''mm''
                                  then Inr (apply_affine env (affine img) (get_coords s))
                                  else Inr (get_coords s)) of
                              Inl e \<Rightarrow> raise e st printed
                            | Inr elec_coords \<Rightarrow>
                                recreate_sensors st s
                                  (if do_round then round_astype_int elec_coords
                                   else elec_coords)
                                  to_coord printed))))"

section \<open>Where the floating point arithmetic is exact\<close>

text \<open>The value of a point, \<open>0\<close> standing for what is not finite.\<close>

definition point_real :: "point \<Rightarrow> rvec3" where
  "point_real p = (case point_value p of Some v \<Rightarrow> v | None \<Rightarrow> (0, 0, 0))"

text \<open>
  The arithmetic of the environment applies the matrix \<open>m\<close> exactly to every point of an
  array: the points are finite and each result is the exact one. It does so wherever every
  product and sum of the computation is a \<^verbatim>\<open>float64\<close>, as for small integers.
\<close>

definition dot_exact :: "env \<Rightarrow> rmat4 \<Rightarrow> ndarray \<Rightarrow> bool" where
  "dot_exact env m c =
     list_all (\<lambda>p. point_value p \<noteq> None \<and>
                    np_dot_affine env (fmat m) p = fvec (affine_pt m (point_real p)))
       (points c)"

text \<open>
  A floating point coordinate is within a half of an \<^verbatim>\<open>int64\<close>; a floating point row
  is so of a row of integers.
\<close>

fun within_half :: "float64 \<Rightarrow> int \<Rightarrow> bool" where
  "within_half (Finite x) i = (\<bar>x - of_int i\<bar> < 1 / 2 \<and> - (2 ^ 63) \<le> i \<and> i < 2 ^ 63)"
| "within_half PosInf i = False"
| "within_half NegInf i = False"
| "within_half NaN i = False"

fun row_within_half :: "vec3 \<Rightarrow> ivec3 \<Rightarrow> bool" where
  "row_within_half (x, y, z) (i, j, k) = (within_half x i \<and> within_half y j \<and> within_half z k)"

section \<open>A concrete subject\<close>

text \<open>
  An arithmetic for the examples, exact on finite numbers. Every operation of the examples
  below gives a result that is a \<^verbatim>\<open>float64\<close>, so that the libraries compute it exactly
  as well.
\<close>

fun is_finite :: "float64 \<Rightarrow> bool" where
  "is_finite (Finite r) = True"
| "is_finite PosInf = False"
| "is_finite NegInf = False"
| "is_finite NaN = False"

fun the_real :: "float64 \<Rightarrow> real" where
  "the_real (Finite r) = r"
| "the_real PosInf = 0"
| "the_real NegInf = 0"
| "the_real NaN = 0"

fun finite_row :: "row4 \<Rightarrow> bool" where
  "finite_row (a, b, c, d) = (is_finite a \<and> is_finite b \<and> is_finite c \<and> is_finite d)"

fun finite_mat :: "mat4 \<Rightarrow> bool" where
  "finite_mat (r1, r2, r3, r4) = (finite_row r1 \<and> finite_row r2 \<and> finite_row r3 \<and> finite_row r4)"

fun rrow_of :: "row4 \<Rightarrow> rrow4" where
  "rrow_of (a, b, c, d) = (the_real a, the_real b, the_real c, the_real d)"

fun rmat_of :: "mat4 \<Rightarrow> rmat4" where
  "rmat_of (r1, r2, r3, r4) = (rrow_of r1, rrow_of r2, rrow_of r3, rrow_of r4)"

definition exact_dot_affine :: "mat4 \<Rightarrow> point \<Rightarrow> vec3" where
  "exact_dot_affine m p =
     (case point_value p of
        Some v \<Rightarrow> if finite_mat m then fvec (affine_pt (rmat_of m) v) else (NaN, NaN, NaN)
      | None \<Rightarrow> (NaN, NaN, NaN))"

definition exact_linalg_inv :: "mat4 \<Rightarrow> error + mat4" where
  "exact_linalg_inv m =
     (if finite_mat m
      then (case exact_inverse (rmat_of m) of
              None \<Rightarrow> Inl LinAlgError
            | Some m' \<Rightarrow> Inr (fmat m'))
      else Inl LinAlgError)"

text \<open>
  One subject: an image with voxels of a quarter of a millimetre whose header has no
  \<^verbatim>\<open>get_vox2ras_tkr\<close>, a second image with another affine, and a subjects directory
  whose canonical volume has, in its \<^verbatim>\<open>Transform\<close>, the affine of the first image.
\<close>

definition identity_affine :: rmat4 where
  "identity_affine = ((1, 0, 0, 0), (0, 1, 0, 0), (0, 0, 1, 0), (0, 0, 0, 1))"

definition quarter_mm_affine :: rmat4 where
  "quarter_mm_affine = ((1 / 4, 0, 0, 0), (0, 1 / 4, 0, 0), (0, 0, 1 / 4, 0), (0, 0, 0, 1))"

definition example_env :: env where
  "example_env =
     \<lparr>images = (\<lambda>p. if p = ''sub-01_T1w.nii''
                     then Some \<lparr>affine = fmat quarter_mm_affine, get_vox2ras_tkr = None\<rparr>
                     else if p = ''sub-01_other.nii''
                     then Some \<lparr>affine = fmat identity_affine, get_vox2ras_tkr = None\<rparr>
                     else None),
      subject_entity = (\<lambda>p. if p = ''sub-01_T1w.nii'' \<or> p = ''sub-01_other.nii''
                             then Some ''01'' else None),
      isfile = (\<lambda>p. p = ''fs/01/mri/T1.mgz''),
      read_mri_info = (\<lambda>p. \<lparr>from_frame = ''mri'', to_frame = ''ras'',
                              trans_matrix = fmat quarter_mm_affine\<rparr>),
      read_talxfm = (\<lambda>subject sdir. Inr \<lparr>from_frame = ''mri'', to_frame = ''mni_tal'',
                                           trans_matrix = fmat identity_affine\<rparr>),
      np_dot_affine = exact_dot_affine,
      np_linalg_inv = exact_linalg_inv,
      scale_point = (\<lambda>a b. None)\<rparr>"

definition example_sensors :: sensors where
  "example_sensors =
     \<lparr>ch_names = [''A1'', ''A2''],
      coords = IntArray [(128, 128, 128), (1, 2, 3)],
      coord_unit = ''mri'',
      intended_for = Some ''sub-01_T1w.nii''\<rparr>"

text \<open>
  The unit round trip of the example with rounding in both calls: voxel to millimetre, and
  the result back to voxel.
\<close>

definition example_mm_rounded :: outcome where
  "example_mm_rounded = convert_coord_units example_env [example_sensors] 0 ''mm'' True True"


section \<open>Outcomes, and the examples evaluated\<close>

lemmas example_defs =
  example_env_def example_sensors_def quarter_mm_affine_def identity_affine_def
  exact_dot_affine_def exact_linalg_inv_def exact_inverse_def

lemma recreate_sensors_simps [simp]:
  "result (recreate_sensors st s c t evs) = Inr (length st)"
  "store (recreate_sensors st s c t evs) = st @ [s\<lparr>coords := c, coord_unit := t\<rparr>]"
  "events (recreate_sensors st s c t evs) = evs"
  by (simp_all add: recreate_sensors_def set_coords_def)

lemma raise_simps [simp]:
  "result (raise e st evs) = Inl e"
  "store (raise e st evs) = st"
  "events (raise e st evs) = evs"
  by (simp_all add: raise_def)

lemma finite_mat_fmat [simp]: "finite_mat (fmat m)"
  by (cases m rule: prod_cases4; cases "fst m" rule: prod_cases4;
      cases "fst (snd m)" rule: prod_cases4; cases "fst (snd (snd m))" rule: prod_cases4;
      cases "snd (snd (snd m))" rule: prod_cases4) simp

lemma rmat_of_fmat [simp]: "rmat_of (fmat m) = m"
  by (cases m rule: prod_cases4; cases "fst m" rule: prod_cases4;
      cases "fst (snd m)" rule: prod_cases4; cases "fst (snd (snd m))" rule: prod_cases4;
      cases "snd (snd (snd m))" rule: prod_cases4) simp


lemma example_mm_rounded_eq:
  "example_mm_rounded =
     \<lparr>result = Inr 1,
      store = [example_sensors,
               example_sensors\<lparr>coords := IntArray [(32, 32, 32), (0, 0, 1)],
                               coord_unit := ''mm''\<rparr>],
      events = [Print_converting ''mri'' ''mm'' (Some ''sub-01_T1w.nii'')]\<rparr>"
  by (simp add: example_mm_rounded_def Let_def convert_coord_units_def example_defs nb_load_def
        det3_def recreate_sensors_def get_coords_def set_coords_def
        apply_affine_def np_round_def)


section \<open>Targets: rejection and the identity short-circuit\<close>

text \<open>
  C5. A target that is not among the recognised units (\<^verbatim>\<open>convert_coord_units\<close>) or
  frames (\<^verbatim>\<open>convert_coord_space\<close>) is rejected with \<open>InvalidArgument\<close> at once: the
  outcome is the same in every environment, so no image is loaded and no transform applied,
  nothing is printed, and the store, hence the sensors passed in, is as it was.
\<close>

theorem unknown_target_rejected:
  "(to_coord \<notin> set [''mri'', ''mm''] \<longrightarrow>
      convert_coord_units env st r to_coord do_round verbose =
        \<lparr>result = Inl InvalidArgument, store = st, events = []\<rparr>) \<and>
   (to_coord \<notin> set MAPPING_COORD_FRAMES \<longrightarrow>
      convert_coord_space env st r to_coord subjects_dir verbose =
        \<lparr>result = Inl InvalidArgument, store = st, events = []\<rparr>)"
  by (auto simp: convert_coord_units_def convert_coord_space_def Let_def raise_def)

theorem unknown_target_rejected_witness:
  "''m'' \<notin> set [''mri'', ''mm''] \<and> ''foo'' \<notin> set MAPPING_COORD_FRAMES \<and>
   convert_coord_units example_env [example_sensors] 0 ''m'' True True =
     \<lparr>result = Inl InvalidArgument, store = [example_sensors], events = []\<rparr> \<and>
   convert_coord_space example_env [example_sensors] 0 ''foo'' None True =
     \<lparr>result = Inl InvalidArgument, store = [example_sensors], events = []\<rparr>"
proof -
  have h1: "''m'' \<notin> set [''mri'', ''mm'']" by simp
  have h2: "''foo'' \<notin> set MAPPING_COORD_FRAMES" by (simp add: MAPPING_COORD_FRAMES_def)
  show ?thesis
    using h1 h2
      unknown_target_rejected [where to_coord = "''m''" and st = "[example_sensors]" and r = 0
        and env = example_env and do_round = True and verbose = True]
      unknown_target_rejected [where to_coord = "''foo''" and st = "[example_sensors]" and r = 0
        and env = example_env and subjects_dir = None and verbose = True]
    by blast
qed

text \<open>
  C4, as stated, fails: the target is validated before it is compared with the tag. Sensors
  tagged \<^verbatim>\<open>tkras\<close>, a tag that \<^verbatim>\<open>convert_coord_space\<close> produces, given to
  \<^verbatim>\<open>convert_coord_units\<close> with the target \<^verbatim>\<open>tkras\<close>, and sensors tagged
  \<^verbatim>\<open>mm\<close>, a tag that \<^verbatim>\<open>convert_coord_units\<close> produces, given to
  \<^verbatim>\<open>convert_coord_space\<close> with the target \<^verbatim>\<open>mm\<close>, raise \<open>InvalidArgument\<close>.
\<close>

theorem short_circuit_unrecognised_counterexample:
  "coord_unit ([example_sensors\<lparr>coord_unit := ''tkras''\<rparr>] ! 0) = ''tkras'' \<and>
   convert_coord_units example_env [example_sensors\<lparr>coord_unit := ''tkras''\<rparr>] 0 ''tkras''
       True True =
     \<lparr>result = Inl InvalidArgument, store = [example_sensors\<lparr>coord_unit := ''tkras''\<rparr>],
      events = []\<rparr> \<and>
   coord_unit ([example_sensors\<lparr>coord_unit := ''mm''\<rparr>] ! 0) = ''mm'' \<and>
   convert_coord_space example_env [example_sensors\<lparr>coord_unit := ''mm''\<rparr>] 0 ''mm''
       None True =
     \<lparr>result = Inl InvalidArgument, store = [example_sensors\<lparr>coord_unit := ''mm''\<rparr>],
      events = []\<rparr>"
  by (simp add: convert_coord_units_def convert_coord_space_def Let_def raise_def
        MAPPING_COORD_FRAMES_def)

text \<open>
  C4, amended. When the target equals the current tag of the sensors: if it is a recognised
  unit (\<^verbatim>\<open>convert_coord_units\<close>) or frame (\<^verbatim>\<open>convert_coord_space\<close>), the call
  returns the very object it was given, the same reference and the store unchanged, so the
  coordinates are those of the input, no affine is applied, nothing is printed and no error
  is raised; if it is not recognised, the call raises \<open>InvalidArgument\<close> and the store
  is unchanged.
\<close>

theorem identity_short_circuit:
  "to_coord = coord_unit (st ! r) \<longrightarrow>
     convert_coord_units env st r to_coord do_round verbose =
       (if to_coord \<in> set [''mri'', ''mm'']
        then \<lparr>result = Inr r, store = st, events = []\<rparr>
        else \<lparr>result = Inl InvalidArgument, store = st, events = []\<rparr>) \<and>
     convert_coord_space env st r to_coord subjects_dir verbose =
       (if to_coord \<in> set MAPPING_COORD_FRAMES
        then \<lparr>result = Inr r, store = st, events = []\<rparr>
        else \<lparr>result = Inl InvalidArgument, store = st, events = []\<rparr>)"
  by (auto simp: convert_coord_units_def convert_coord_space_def Let_def raise_def)

theorem identity_short_circuit_witness:
  "''mri'' = coord_unit ([example_sensors] ! 0) \<and>
   ''mri'' \<in> set [''mri'', ''mm''] \<and> ''mri'' \<in> set MAPPING_COORD_FRAMES \<and>
   convert_coord_units example_env [example_sensors] 0 ''mri'' True True =
     \<lparr>result = Inr 0, store = [example_sensors], events = []\<rparr> \<and>
   convert_coord_space example_env [example_sensors] 0 ''mri'' None True =
     \<lparr>result = Inr 0, store = [example_sensors], events = []\<rparr>"
proof -
  have h: "''mri'' = coord_unit ([example_sensors] ! 0)"
    by (simp add: example_sensors_def)
  have m: "''mri'' \<in> set [''mri'', ''mm'']" "''mri'' \<in> set MAPPING_COORD_FRAMES"
    by (simp_all add: MAPPING_COORD_FRAMES_def)
  show ?thesis
    using h m
      identity_short_circuit [where to_coord = "''mri''" and st = "[example_sensors]" and r = 0
        and env = example_env and do_round = True and verbose = True and subjects_dir = None]
    by simp
qed

section \<open>The reference image\<close>

lemma units_without_image:
  assumes "intended_for (st ! r) = None" and "to_coord \<in> set [''mri'', ''mm'']"
    and "to_coord \<noteq> coord_unit (st ! r)"
  shows "convert_coord_units env st r to_coord do_round verbose =
           \<lparr>result = Inl LoadTypeError, store = st, events = []\<rparr>"
  using assms by (simp add: convert_coord_units_def Let_def nb_load_def raise_def)

lemma space_without_image:
  assumes "intended_for (st ! r) = None" and "to_coord \<in> set MAPPING_COORD_FRAMES"
    and "coord_unit (st ! r) \<in> set MAPPING_COORD_FRAMES"
    and "to_coord \<noteq> coord_unit (st ! r)"
  shows "convert_coord_space env st r to_coord subjects_dir verbose =
           \<lparr>result = Inl MissingReferenceImage, store = st, events = []\<rparr>"
  using assms by (simp add: convert_coord_space_def Let_def raise_def)

text \<open>
  C6. Sensors without a reference image, tagged \<^verbatim>\<open>mri\<close>, converted to \<^verbatim>\<open>mm\<close>:
  \<^verbatim>\<open>convert_coord_units\<close> has no check of the path and hands \<^verbatim>\<open>None\<close> to the
  loader, whose own error comes out; \<^verbatim>\<open>convert_coord_space\<close> on the same sensors
  raises \<open>MissingReferenceImage\<close>.
\<close>

theorem units_without_image_example:
  "convert_coord_units example_env [example_sensors\<lparr>intended_for := None\<rparr>] 0 ''mm'' True True =
     \<lparr>result = Inl LoadTypeError, store = [example_sensors\<lparr>intended_for := None\<rparr>],
      events = []\<rparr> \<and>
   convert_coord_space example_env [example_sensors\<lparr>intended_for := None\<rparr>] 0 ''tkras'' None
       True =
     \<lparr>result = Inl MissingReferenceImage, store = [example_sensors\<lparr>intended_for := None\<rparr>],
      events = []\<rparr>"
  by (simp add: convert_coord_units_def convert_coord_space_def Let_def nb_load_def raise_def
        example_sensors_def MAPPING_COORD_FRAMES_def)

section \<open>The voxel-tkras resolver\<close>

text \<open>
  The inverse of the hardcoded matrix, and the two maps point by point.
\<close>

lemma fallback_inverse:
  "exact_inverse fallback_matrix =
     Some ((-1, 0, 0, 128), (0, 0, -1, 128), (0, 1, 0, 128), (0, 0, 0, 1))"
  by (simp add: exact_inverse_def fallback_matrix_def det3_def)

lemma affine_pt_fallback:
  "affine_pt fallback_matrix (x, y, z) = (128 - x, z - 128, 128 - y)"
  by (simp add: fallback_matrix_def)

lemma dot_exact_map:
  assumes "dot_exact env m c"
  shows "map (np_dot_affine env (fmat m)) (points c) =
           map (\<lambda>p. fvec (affine_pt m (point_real p))) (points c)"
  using assms by (simp add: dot_exact_def list_all_iff)

lemma handle_tkras_trans_fallback:
  assumes "get_vox2ras_tkr img = None"
  shows "handle_tkras_trans env elec_coords img False verbose =
           (Inr (FloatArray (map (np_dot_affine env fallback_vox2ras_tkr) (points elec_coords))),
            Warn_vox2ras_tkr_unavailable #
              (if verbose then [Print_using_vox2tkras fallback_vox2ras_tkr] else []))"
    and "handle_tkras_trans env elec_coords img True verbose =
           (case np_linalg_inv env fallback_vox2ras_tkr of
              Inl e \<Rightarrow> Inl e
            | Inr m \<Rightarrow> Inr (FloatArray (map (np_dot_affine env m) (points elec_coords))),
            Warn_vox2ras_tkr_unavailable #
              (if verbose then [Print_using_vox2tkras fallback_vox2ras_tkr] else []))"
  using assms
  by (simp_all add: handle_tkras_trans_def vox2ras_tkr_or_fallback_def apply_affine_def
        split: sum.splits)

text \<open>
  C7. For an image whose header has no \<^verbatim>\<open>get_vox2ras_tkr\<close> and every point set, the
  resolver warns and uses the hardcoded matrix. Forward, it returns the array whose rows are
  the rows of the input under that matrix, in their order; reverting, it returns the rows
  under the inverse that \<^verbatim>\<open>np.linalg.inv\<close> gives of that matrix. Where the products
  are exact, the point \<open>(x, y, z)\<close> goes forward to \<open>(128 - x, z - 128, 128 - y)\<close>, so
  that the voxel \<open>(128, 128, 128)\<close> goes to \<open>(0, 0, 0)\<close>, and, the inverse being the
  exact one, back to \<open>(128 - x, 128 - z, y + 128)\<close>.
\<close>

theorem tkras_fallback:
  "get_vox2ras_tkr img = None \<longrightarrow>
     handle_tkras_trans env elec_coords img False verbose =
       (Inr (FloatArray (map (np_dot_affine env fallback_vox2ras_tkr) (points elec_coords))),
        Warn_vox2ras_tkr_unavailable #
          (if verbose then [Print_using_vox2tkras fallback_vox2ras_tkr] else [])) \<and>
     handle_tkras_trans env elec_coords img True verbose =
       (case np_linalg_inv env fallback_vox2ras_tkr of
          Inl e \<Rightarrow> Inl e
        | Inr m \<Rightarrow> Inr (FloatArray (map (np_dot_affine env m) (points elec_coords))),
        Warn_vox2ras_tkr_unavailable #
          (if verbose then [Print_using_vox2tkras fallback_vox2ras_tkr] else [])) \<and>
     (dot_exact env fallback_matrix elec_coords \<longrightarrow>
        fst (handle_tkras_trans env elec_coords img False verbose) =
          Inr (FloatArray
                 (map (\<lambda>p. case point_real p of
                              (x, y, z) \<Rightarrow> (Finite (128 - x), Finite (z - 128), Finite (128 - y)))
                    (points elec_coords)))) \<and>
     (np_linalg_inv env fallback_vox2ras_tkr =
        Inr (fmat ((-1, 0, 0, 128), (0, 0, -1, 128), (0, 1, 0, 128), (0, 0, 0, 1))) \<and>
      dot_exact env ((-1, 0, 0, 128), (0, 0, -1, 128), (0, 1, 0, 128), (0, 0, 0, 1))
        elec_coords \<longrightarrow>
        fst (handle_tkras_trans env elec_coords img True verbose) =
          Inr (FloatArray
                 (map (\<lambda>p. case point_real p of
                              (x, y, z) \<Rightarrow> (Finite (128 - x), Finite (128 - z), Finite (y + 128)))
                    (points elec_coords)))) \<and>
     exact_inverse fallback_matrix =
       Some ((-1, 0, 0, 128), (0, 0, -1, 128), (0, 1, 0, 128), (0, 0, 0, 1))"
proof
  assume h: "get_vox2ras_tkr img = None"
  let ?inv = "((-1, 0, 0, 128), (0, 0, -1, 128), (0, 1, 0, 128), (0, 0, 0, 1)) :: rmat4"
  have fwd: "fst (handle_tkras_trans env elec_coords img False verbose) =
          Inr (FloatArray
                 (map (\<lambda>p. case point_real p of
                              (x, y, z) \<Rightarrow> (Finite (128 - x), Finite (z - 128), Finite (128 - y)))
                    (points elec_coords)))"
    if e: "dot_exact env fallback_matrix elec_coords"
  proof -
    have "map (np_dot_affine env fallback_vox2ras_tkr) (points elec_coords) =
            map (\<lambda>p. fvec (affine_pt fallback_matrix (point_real p))) (points elec_coords)"
      using dot_exact_map [OF e] by (simp add: fallback_vox2ras_tkr_def)
    also have "\<dots> = map (\<lambda>p. case point_real p of
                              (x, y, z) \<Rightarrow> (Finite (128 - x), Finite (z - 128), Finite (128 - y)))
                    (points elec_coords)"
      by (rule map_cong) (auto simp: affine_pt_fallback split: prod.splits)
    finally show ?thesis
      by (simp add: handle_tkras_trans_fallback(1) [OF h])
  qed
  have bwd: "fst (handle_tkras_trans env elec_coords img True verbose) =
          Inr (FloatArray
                 (map (\<lambda>p. case point_real p of
                              (x, y, z) \<Rightarrow> (Finite (128 - x), Finite (128 - z), Finite (y + 128)))
                    (points elec_coords)))"
    if i: "np_linalg_inv env fallback_vox2ras_tkr = Inr (fmat ?inv)"
      and e: "dot_exact env ?inv elec_coords"
  proof -
    have "map (np_dot_affine env (fmat ?inv)) (points elec_coords) =
            map (\<lambda>p. fvec (affine_pt ?inv (point_real p))) (points elec_coords)"
      by (rule dot_exact_map [OF e])
    also have "\<dots> = map (\<lambda>p. case point_real p of
                              (x, y, z) \<Rightarrow> (Finite (128 - x), Finite (128 - z), Finite (y + 128)))
                    (points elec_coords)"
      by (rule map_cong) (auto split: prod.splits)
    finally show ?thesis
      by (simp add: handle_tkras_trans_fallback(2) [OF h] i)
  qed
  show "handle_tkras_trans env elec_coords img False verbose =
       (Inr (FloatArray (map (np_dot_affine env fallback_vox2ras_tkr) (points elec_coords))),
        Warn_vox2ras_tkr_unavailable #
          (if verbose then [Print_using_vox2tkras fallback_vox2ras_tkr] else [])) \<and>
     handle_tkras_trans env elec_coords img True verbose =
       (case np_linalg_inv env fallback_vox2ras_tkr of
          Inl e \<Rightarrow> Inl e
        | Inr m \<Rightarrow> Inr (FloatArray (map (np_dot_affine env m) (points elec_coords))),
        Warn_vox2ras_tkr_unavailable #
          (if verbose then [Print_using_vox2tkras fallback_vox2ras_tkr] else [])) \<and>
     (dot_exact env fallback_matrix elec_coords \<longrightarrow>
        fst (handle_tkras_trans env elec_coords img False verbose) =
          Inr (FloatArray
                 (map (\<lambda>p. case point_real p of
                              (x, y, z) \<Rightarrow> (Finite (128 - x), Finite (z - 128), Finite (128 - y)))
                    (points elec_coords)))) \<and>
     (np_linalg_inv env fallback_vox2ras_tkr = Inr (fmat ?inv) \<and>
      dot_exact env ?inv elec_coords \<longrightarrow>
        fst (handle_tkras_trans env elec_coords img True verbose) =
          Inr (FloatArray
                 (map (\<lambda>p. case point_real p of
                              (x, y, z) \<Rightarrow> (Finite (128 - x), Finite (128 - z), Finite (y + 128)))
                    (points elec_coords)))) \<and>
     exact_inverse fallback_matrix = Some ?inv"
    using handle_tkras_trans_fallback [OF h] fwd bwd fallback_inverse by blast
qed

theorem tkras_fallback_witness:
  "get_vox2ras_tkr \<lparr>affine = fmat quarter_mm_affine, get_vox2ras_tkr = None\<rparr> = None \<and>
   dot_exact example_env fallback_matrix (IntArray [(128, 128, 128), (1, 2, 3)]) \<and>
   np_linalg_inv example_env fallback_vox2ras_tkr =
     Inr (fmat ((-1, 0, 0, 128), (0, 0, -1, 128), (0, 1, 0, 128), (0, 0, 0, 1))) \<and>
   dot_exact example_env ((-1, 0, 0, 128), (0, 0, -1, 128), (0, 1, 0, 128), (0, 0, 0, 1))
     (IntArray [(128, 128, 128), (1, 2, 3)]) \<and>
   handle_tkras_trans example_env (IntArray [(128, 128, 128), (1, 2, 3)])
       \<lparr>affine = fmat quarter_mm_affine, get_vox2ras_tkr = None\<rparr> False True =
     (Inr (FloatArray [(Finite 0, Finite 0, Finite 0), (Finite 127, Finite (- 125), Finite 126)]),
      [Warn_vox2ras_tkr_unavailable, Print_using_vox2tkras fallback_vox2ras_tkr]) \<and>
   fst (handle_tkras_trans example_env (IntArray [(128, 128, 128), (1, 2, 3)])
       \<lparr>affine = fmat quarter_mm_affine, get_vox2ras_tkr = None\<rparr> True True) =
     Inr (FloatArray [(Finite 0, Finite 0, Finite 256), (Finite 127, Finite 125, Finite 130)])"
proof -
  let ?img = "\<lparr>affine = fmat quarter_mm_affine, get_vox2ras_tkr = None\<rparr>"
  let ?c = "IntArray [(128, 128, 128), (1, 2, 3)]"
  let ?inv = "((-1, 0, 0, 128), (0, 0, -1, 128), (0, 1, 0, 128), (0, 0, 0, 1)) :: rmat4"
  have h: "get_vox2ras_tkr ?img = None"
    by simp
  have e1: "dot_exact example_env fallback_matrix ?c"
    by (simp add: dot_exact_def example_env_def exact_dot_affine_def fallback_matrix_def
          point_real_def)
  have i: "np_linalg_inv example_env fallback_vox2ras_tkr = Inr (fmat ?inv)"
    by (simp add: example_env_def exact_linalg_inv_def fallback_vox2ras_tkr_def
          fallback_matrix_def exact_inverse_def det3_def)
  have e2: "dot_exact example_env ?inv ?c"
    by (simp add: dot_exact_def example_env_def exact_dot_affine_def point_real_def)
  note t = tkras_fallback [of ?img example_env ?c True, THEN mp, OF h]
  note f1 = t [THEN conjunct1]
  note f2 = t [THEN conjunct2, THEN conjunct2, THEN conjunct1, THEN mp, OF e1]
  note f3 = t [THEN conjunct2, THEN conjunct2, THEN conjunct2, THEN conjunct1, THEN mp,
               OF conjI [OF i e2]]
  have ev: "snd (handle_tkras_trans example_env ?c ?img False True) =
              [Warn_vox2ras_tkr_unavailable, Print_using_vox2tkras fallback_vox2ras_tkr]"
    by (simp add: f1)
  have r1: "fst (handle_tkras_trans example_env ?c ?img False True) =
     Inr (FloatArray [(Finite 0, Finite 0, Finite 0), (Finite 127, Finite (- 125), Finite 126)])"
    by (simp only: f2) (simp add: point_real_def)
  have r2: "fst (handle_tkras_trans example_env ?c ?img True True) =
     Inr (FloatArray [(Finite 0, Finite 0, Finite 256), (Finite 127, Finite 125, Finite 130)])"
    by (simp only: f3) (simp add: point_real_def)
  have "handle_tkras_trans example_env ?c ?img False True =
     (Inr (FloatArray [(Finite 0, Finite 0, Finite 0), (Finite 127, Finite (- 125), Finite 126)]),
      [Warn_vox2ras_tkr_unavailable, Print_using_vox2tkras fallback_vox2ras_tkr])"
    using r1 ev by (simp add: prod_eq_iff)
  with r2 have "handle_tkras_trans example_env ?c ?img False True =
     (Inr (FloatArray [(Finite 0, Finite 0, Finite 0), (Finite 127, Finite (- 125), Finite 126)]),
      [Warn_vox2ras_tkr_unavailable, Print_using_vox2tkras fallback_vox2ras_tkr])"
    and "fst (handle_tkras_trans example_env ?c ?img True True) =
     Inr (FloatArray [(Finite 0, Finite 0, Finite 256), (Finite 127, Finite 125, Finite 130)])"
    by simp_all
  with h e1 i e2 show ?thesis by blast
qed

section \<open>The voxel-MNI resolver\<close>

text \<open>
  The resolver never returns coordinates and never raises \<open>FrameMismatch\<close>.
\<close>

lemma handle_mni_trans_raises:
  "\<exists>e. handle_mni_trans env elec_coords img_fpath subjects_dir revert_mni verbose = Inl e \<and>
       e \<noteq> FrameMismatch"
  by (auto simp: handle_mni_trans_def Let_def np_isclose_def nb_load_def
           split: option.splits sum.splits)

lemma handle_mni_trans_not_Inr [simp]:
  "handle_mni_trans env elec_coords img_fpath subjects_dir revert_mni verbose \<noteq> Inr c"
  using handle_mni_trans_raises [of env elec_coords img_fpath subjects_dir revert_mni verbose]
  by auto

text \<open>
  Whenever the check is reached, \<^verbatim>\<open>np.isclose\<close> raises.
\<close>

lemma handle_mni_trans_check:
  assumes "subject_entity env img_fpath = Some subject"
    and "isfile env (op_join sdir [subject, ''mri'', ''orig.mgz'']) \<or>
         isfile env (op_join sdir [subject, ''mri'', ''T1.mgz''])"
    and "images env img_fpath = Some img"
  shows "handle_mni_trans env elec_coords img_fpath (Some sdir) revert_mni verbose =
           Inl IscloseTypeError"
  using assms
  by (auto simp: handle_mni_trans_def Let_def np_isclose_def nb_load_def)

text \<open>
  C1. The resolver on the example subject, whose canonical volume exists: with the image whose
  affine equals the matrix of the canonical \<^verbatim>\<open>Transform\<close>, and with the image whose
  affine differs from it, \<^verbatim>\<open>np.isclose\<close> is given the \<^verbatim>\<open>Transform\<close> itself and
  raises a \<^verbatim>\<open>TypeError\<close>; the conversion does not proceed in the first case, and
  \<open>FrameMismatch\<close> is not raised in the second.
\<close>

theorem mni_check_raises_type_error:
  "handle_mni_trans example_env (IntArray [(1, 2, 3)]) ''sub-01_T1w.nii'' (Some ''fs'') False
       True = Inl IscloseTypeError \<and>
   handle_mni_trans example_env (IntArray [(1, 2, 3)]) ''sub-01_other.nii'' (Some ''fs'') False
       True = Inl IscloseTypeError \<and>
   affine (the (images example_env ''sub-01_T1w.nii'')) =
     trans_matrix (read_mri_info example_env ''fs/01/mri/T1.mgz'') \<and>
   affine (the (images example_env ''sub-01_other.nii'')) \<noteq>
     trans_matrix (read_mri_info example_env ''fs/01/mri/T1.mgz'')"
  by (simp add: handle_mni_trans_def Let_def example_defs nb_load_def op_join_def
        join_component_def np_isclose_def)

section \<open>The unit converter\<close>

text \<open>
  A successful call that is no short-circuit loaded the image and inverted its affine; what it
  returns is one function of a point applied to every row, then rounded or not. The same
  holds of the call on any sensors with the same tag and image, and for both values of the
  rounding flag.
\<close>

lemma units_success:
  assumes "to_coord \<noteq> coord_unit (st ! r)"
    and "result (convert_coord_units env st r to_coord do_round verbose) = Inr r'"
  shows "\<exists>f. \<forall>st0 r0 b v.
           coord_unit (st0 ! r0) = coord_unit (st ! r) \<and>
           intended_for (st0 ! r0) = intended_for (st ! r) \<longrightarrow>
           convert_coord_units env st0 r0 to_coord b v =
             recreate_sensors st0 (st0 ! r0)
               (if b then round_astype_int (FloatArray (map f (points (coords (st0 ! r0)))))
                else FloatArray (map f (points (coords (st0 ! r0)))))
               to_coord
               (if v then [Print_converting (coord_unit (st ! r)) to_coord
                             (intended_for (st ! r))]
                else [])"
proof -
  let ?s = "st ! r"
  from assms(2) have t: "to_coord = ''mri'' \<or> to_coord = ''mm''"
    by (auto simp: convert_coord_units_def Let_def split: if_splits)
  from assms t obtain img where img: "nb_load env (intended_for ?s) = Inr img"
    by (auto simp: convert_coord_units_def Let_def split: if_splits sum.splits)
  from assms t img obtain inv_affine where
    inv: "np_linalg_inv env (affine img) = Inr inv_affine"
    by (auto simp: convert_coord_units_def Let_def split: if_splits sum.splits)
  show ?thesis
  proof (cases "to_coord = ''mm''")
    case True
    show ?thesis
      using True assms(1) img inv
      by (intro exI [of _ "np_dot_affine env (affine img)"])
         (simp add: convert_coord_units_def Let_def apply_affine_def get_coords_def)
  next
    case False
    with t have mri: "to_coord = ''mri''" by simp
    from assms img inv mri obtain c where
      c: "scale_coordinates env (get_coords ?s) (coord_unit ?s) ''mm'' = Inr c"
      by (auto simp: convert_coord_units_def Let_def split: if_splits sum.splits)
    show ?thesis
    proof (cases "coord_unit ?s = ''mm''")
      case True
      show ?thesis
        using True assms(1) img inv mri
        by (intro exI [of _ "np_dot_affine env inv_affine"])
           (simp add: convert_coord_units_def Let_def apply_affine_def get_coords_def
              scale_coordinates_def)
    next
      case False
      with c obtain g where g: "scale_point env (coord_unit ?s) ''mm'' = Some g"
        by (auto simp: scale_coordinates_def split: option.splits)
      show ?thesis
        using False assms(1) img inv mri g
        by (intro exI [of _ "\<lambda>p. np_dot_affine env inv_affine (FloatPoint (g p))"])
           (simp add: convert_coord_units_def Let_def apply_affine_def get_coords_def
              scale_coordinates_def comp_def)
    qed
  qed
qed



section \<open>Rounding\<close>

lemma np_round_of_int [simp]: "np_round (of_int n) = n"
  by (simp add: np_round_def)

lemma np_round_nearest: "\<bar>x - of_int (np_round x)\<bar> \<le> 1 / 2"
  unfolding np_round_def Let_def by (auto simp: abs_le_iff; linarith)


lemma astype_int_np_rint:
  "astype_int (np_rint (Finite v)) =
     (if - (2 ^ 63) \<le> np_round v \<and> np_round v < 2 ^ 63 then np_round v else INT64_MIN)"
  by (simp add: Let_def)



text \<open>
  C10. When a unit conversion with rounding succeeds and the target differs from the current
  unit, the same call without rounding succeeds with a floating point array, and the
  coordinates returned are the integer array of its values, each rounded by \<^verbatim>\<open>np.round\<close>
  and cast to \<^verbatim>\<open>int64\<close>, whatever the target, \<^verbatim>\<open>mm\<close> included. For a finite
  value that is the nearest integer (the even one of two), within a half of the value, when it
  is an \<^verbatim>\<open>int64\<close>, and the smallest \<^verbatim>\<open>int64\<close> when it is not.
\<close>

theorem rounding_regardless_of_target:
  assumes "to_coord \<noteq> coord_unit (st ! r)"
    and "result (convert_coord_units env st r to_coord True verbose) = Inr r'"
  shows "\<exists>ps. result (convert_coord_units env st r to_coord False verbose) = Inr r' \<and>
              coords (store (convert_coord_units env st r to_coord False verbose) ! r') =
                FloatArray ps \<and>
              coords (store (convert_coord_units env st r to_coord True verbose) ! r') =
                IntArray (map (\<lambda>(x, y, z). (astype_int (np_rint x), astype_int (np_rint y),
                                              astype_int (np_rint z))) ps) \<and>
              (\<forall>v. astype_int (np_rint (Finite v)) =
                     (if - (2 ^ 63) \<le> np_round v \<and> np_round v < 2 ^ 63 then np_round v
                      else INT64_MIN) \<and>
                   \<bar>v - of_int (np_round v)\<bar> \<le> 1 / 2)"
proof -
  from units_success [OF assms] obtain f where
    a: "\<And>b. convert_coord_units env st r to_coord b verbose =
              recreate_sensors st (st ! r)
                (if b then round_astype_int (FloatArray (map f (points (coords (st ! r)))))
                 else FloatArray (map f (points (coords (st ! r)))))
                to_coord
                (if verbose then [Print_converting (coord_unit (st ! r)) to_coord
                                    (intended_for (st ! r))]
                 else [])"
    by blast
  have r': "r' = length st"
    using assms(2) by (simp add: a)
  show ?thesis
    using np_round_nearest astype_int_np_rint
    by (intro exI [of _ "map f (points (coords (st ! r)))"]) (simp add: a r')
qed

theorem rounding_regardless_of_target_witness:
  "''mm'' \<noteq> coord_unit ([example_sensors] ! 0) \<and>
   result (convert_coord_units example_env [example_sensors] 0 ''mm'' True True) = Inr 1 \<and>
   coords (store (convert_coord_units example_env [example_sensors] 0 ''mm'' False True) ! 1) =
     FloatArray [(Finite 32, Finite 32, Finite 32), (Finite (1 / 4), Finite (1 / 2), Finite (3 / 4))] \<and>
   coords (store (convert_coord_units example_env [example_sensors] 0 ''mm'' True True) ! 1) =
     IntArray [(32, 32, 32), (0, 0, 1)]"
proof -
  have h1: "''mm'' \<noteq> coord_unit ([example_sensors] ! 0)"
    by (simp add: example_sensors_def)
  have h2: "result (convert_coord_units example_env [example_sensors] 0 ''mm'' True True) = Inr 1"
    using example_mm_rounded_eq by (simp add: example_mm_rounded_def)
  have f: "coords (store (convert_coord_units example_env [example_sensors] 0 ''mm'' False True) ! 1) =
     FloatArray [(Finite 32, Finite 32, Finite 32), (Finite (1 / 4), Finite (1 / 2), Finite (3 / 4))]"
    by (simp add: Let_def convert_coord_units_def example_defs nb_load_def
        det3_def recreate_sensors_def get_coords_def set_coords_def apply_affine_def)
  from rounding_regardless_of_target [OF h1 h2] f
  have "coords (store (convert_coord_units example_env [example_sensors] 0 ''mm'' True True) ! 1) =
     IntArray (map (\<lambda>(x, y, z). (astype_int (np_rint x), astype_int (np_rint y),
                                              astype_int (np_rint z)))
        [(Finite 32, Finite 32, Finite 32), (Finite (1 / 4), Finite (1 / 2), Finite (3 / 4))])"
    by auto
  then have c: "coords (store (convert_coord_units example_env [example_sensors] 0 ''mm'' True True) ! 1) =
     IntArray [(32, 32, 32), (0, 0, 1)]"
    by (simp add: np_round_def)
  show ?thesis
    using h1 h2 c f by blast
qed

section \<open>Exact inverses\<close>

lemma adjugate_left: "mat_vec (adjugate m) (mat_vec m v) = scale_vec (det4 m) v"
proof -
  obtain a11 a12 a13 a14 a21 a22 a23 a24 a31 a32 a33 a34 a41 a42 a43 a44 where
    m: "m = ((a11, a12, a13, a14), (a21, a22, a23, a24), (a31, a32, a33, a34), (a41, a42, a43, a44))"
    by (metis prod_cases4)
  obtain x y z w where v: "v = (x, y, z, w)" by (metis prod_cases4)
  show ?thesis
    unfolding m v by (simp add: det3_def algebra_simps)
qed

lemma adjugate_right: "mat_vec m (mat_vec (adjugate m) v) = scale_vec (det4 m) v"
proof -
  obtain a11 a12 a13 a14 a21 a22 a23 a24 a31 a32 a33 a34 a41 a42 a43 a44 where
    m: "m = ((a11, a12, a13, a14), (a21, a22, a23, a24), (a31, a32, a33, a34), (a41, a42, a43, a44))"
    by (metis prod_cases4)
  obtain x y z w where v: "v = (x, y, z, w)" by (metis prod_cases4)
  show ?thesis
    unfolding m v by (simp add: det3_def algebra_simps)
qed

lemma mat_vec_scale: "mat_vec m (scale_vec k v) = scale_vec k (mat_vec m v)"
proof -
  obtain a11 a12 a13 a14 a21 a22 a23 a24 a31 a32 a33 a34 a41 a42 a43 a44 where
    m: "m = ((a11, a12, a13, a14), (a21, a22, a23, a24), (a31, a32, a33, a34), (a41, a42, a43, a44))"
    by (metis prod_cases4)
  obtain x y z w where v: "v = (x, y, z, w)" by (metis prod_cases4)
  show ?thesis
    unfolding m v by (simp add: algebra_simps)
qed

lemma mat_vec_divide_left:
  "k \<noteq> 0 \<Longrightarrow> mat_vec (divide_mat m k) v = scale_vec (1 / k) (mat_vec m v)"
proof -
  assume k: "k \<noteq> 0"
  obtain a11 a12 a13 a14 a21 a22 a23 a24 a31 a32 a33 a34 a41 a42 a43 a44 where
    m: "m = ((a11, a12, a13, a14), (a21, a22, a23, a24), (a31, a32, a33, a34), (a41, a42, a43, a44))"
    by (metis prod_cases4)
  obtain x y z w where v: "v = (x, y, z, w)" by (metis prod_cases4)
  show ?thesis
    unfolding m v using k by (simp add: field_simps)
qed

lemma scale_vec_inverse: "k \<noteq> 0 \<Longrightarrow> scale_vec (1 / k) (scale_vec k v) = v"
  by (cases v rule: prod_cases4) simp

text \<open>
  The exact inverse is the inverse on both sides.
\<close>

lemma exact_inverse_left:
  assumes "exact_inverse m = Some m'"
  shows "mat_vec m' (mat_vec m v) = v"
proof -
  from assms have d: "det4 m \<noteq> 0" and m': "m' = divide_mat (adjugate m) (det4 m)"
    by (auto simp: exact_inverse_def split: if_splits)
  show ?thesis
    unfolding m' by (simp add: mat_vec_divide_left d adjugate_left scale_vec_inverse)
qed

lemma exact_inverse_right:
  assumes "exact_inverse m = Some m'"
  shows "mat_vec m (mat_vec m' v) = v"
proof -
  from assms have d: "det4 m \<noteq> 0" and m': "m' = divide_mat (adjugate m) (det4 m)"
    by (auto simp: exact_inverse_def split: if_splits)
  show ?thesis
    unfolding m'
    by (simp add: mat_vec_divide_left d mat_vec_scale adjugate_right scale_vec_inverse)
qed

lemma exact_inverse_is_affine:
  assumes "exact_inverse m = Some m'" and "is_affine m"
  shows "is_affine m'"
proof -
  from assms have d: "det4 m \<noteq> 0" and m': "m' = divide_mat (adjugate m) (det4 m)"
    by (auto simp: exact_inverse_def split: if_splits)
  obtain a11 a12 a13 a14 a21 a22 a23 a24 a31 a32 a33 a34 a41 a42 a43 a44 where
    m: "m = ((a11, a12, a13, a14), (a21, a22, a23, a24), (a31, a32, a33, a34), (a41, a42, a43, a44))"
    by (metis prod_cases4)
  from assms(2) have r4: "a41 = 0" "a42 = 0" "a43 = 0" "a44 = 1"
    unfolding m by simp_all
  show ?thesis
    using d unfolding m' m r4 by (simp add: det3_def)
qed

lemma mat_vec_affine:
  "is_affine m \<Longrightarrow>
     mat_vec m (x, y, z, 1) = (case affine_pt m (x, y, z) of (a, b, c) \<Rightarrow> (a, b, c, 1))"
proof -
  assume a: "is_affine m"
  obtain a11 a12 a13 a14 a21 a22 a23 a24 a31 a32 a33 a34 a41 a42 a43 a44 where
    m: "m = ((a11, a12, a13, a14), (a21, a22, a23, a24), (a31, a32, a33, a34), (a41, a42, a43, a44))"
    by (metis prod_cases4)
  from a show ?thesis
    unfolding m by simp
qed

lemma affine_pt_inverse:
  assumes "exact_inverse m = Some m'" and "is_affine m"
  shows "affine_pt m' (affine_pt m p) = p" and "affine_pt m (affine_pt m' p) = p"
proof -
  obtain x y z where p: "p = (x, y, z)" by (metis prod_cases3)
  have a': "is_affine m'" by (rule exact_inverse_is_affine [OF assms])
  obtain a b c where q: "affine_pt m (x, y, z) = (a, b, c)" by (metis prod_cases3)
  obtain a' b' c' where q': "affine_pt m' (x, y, z) = (a', b', c')" by (metis prod_cases3)
  obtain u v w where r: "affine_pt m' (a, b, c) = (u, v, w)" by (metis prod_cases3)
  obtain u' v' w' where r': "affine_pt m (a', b', c') = (u', v', w')" by (metis prod_cases3)
  have "mat_vec m' (mat_vec m (x, y, z, 1)) = (x, y, z, 1)"
    by (rule exact_inverse_left [OF assms(1)])
  then have "(u, v, w) = (x, y, z)"
    by (simp add: mat_vec_affine [OF assms(2)] mat_vec_affine [OF a'] q r)
  then show "affine_pt m' (affine_pt m p) = p"
    by (simp add: p q r)
  have "mat_vec m (mat_vec m' (x, y, z, 1)) = (x, y, z, 1)"
    by (rule exact_inverse_right [OF assms(1)])
  then have "(u', v', w') = (x, y, z)"
    by (simp add: mat_vec_affine [OF assms(2)] mat_vec_affine [OF a'] q' r')
  then show "affine_pt m (affine_pt m' p) = p"
    by (simp add: p q' r')
qed

lemma point_real_fvec [simp]: "point_real (FloatPoint (fvec v)) = v"
  by (cases v rule: prod_cases3) (simp add: point_real_def)

lemma apply_affine_exact:
  assumes "dot_exact env m c"
  shows "apply_affine env (fmat m) c =
           FloatArray (map (\<lambda>p. fvec (affine_pt m (point_real p))) (points c))"
  using dot_exact_map [OF assms] by (simp add: apply_affine_def)

text \<open>
  A matrix applied and then its inverse, both exactly: every point comes back to its value.
\<close>

lemma apply_affine_there_and_back:
  assumes "exact_inverse m = Some m'" and "is_affine m"
    and "(a = m \<and> b = m') \<or> (a = m' \<and> b = m)"
    and "dot_exact env a c" and "dot_exact env b (apply_affine env (fmat a) c)"
  shows "apply_affine env (fmat b) (apply_affine env (fmat a) c) =
           FloatArray (map (\<lambda>p. fvec (point_real p)) (points c))"
proof -
  have ba: "affine_pt b (affine_pt a v) = v" for v
    using assms(3) affine_pt_inverse [OF assms(1,2), of v] by auto
  have "apply_affine env (fmat b) (apply_affine env (fmat a) c) =
          FloatArray (map (\<lambda>p. fvec (affine_pt b (point_real p)))
                        (points (apply_affine env (fmat a) c)))"
    by (rule apply_affine_exact [OF assms(5)])
  also have "\<dots> = FloatArray (map (\<lambda>p. fvec (point_real p)) (points c))"
    by (simp add: apply_affine_exact [OF assms(4)] comp_def ba)
  finally show ?thesis .
qed

section \<open>The unit round trip\<close>



text \<open>
  Such coordinates are within a half of the integers they are the values of.
\<close>

lemma rows_within_half_exact:
  assumes "list_all (\<lambda>(i, j, k). - (2 ^ 63) \<le> i \<and> i < 2 ^ 63 \<and> - (2 ^ 63) \<le> j \<and> j < 2 ^ 63 \<and>
                                 - (2 ^ 63) \<le> k \<and> k < 2 ^ 63) qs"
  shows "list_all2 row_within_half (map (\<lambda>p. fvec (point_real p)) (points (IntArray qs))) qs"
  using assms by (induction qs) (auto simp: point_real_def)





section \<open>The frame converter\<close>

lemma space_mri_to_tkras:
  assumes "coord_unit (st ! r) = ''mri''" and "intended_for (st ! r) = Some p"
    and "images env p = Some img"
  shows "convert_coord_space env st r ''tkras'' subjects_dir verbose =
           recreate_sensors st (st ! r)
             (apply_affine env (fst (vox2ras_tkr_or_fallback img)) (coords (st ! r))) ''tkras''
             (snd (vox2ras_tkr_or_fallback img) @
              (if verbose then [Print_using_vox2tkras (fst (vox2ras_tkr_or_fallback img))]
               else []))"
  using assms
  by (simp add: convert_coord_space_def MAPPING_COORD_FRAMES_def nb_load_def to_mri_coords_def
        from_mri_coords_def handle_tkras_trans_def get_coords_def split_beta Let_def)

lemma space_tkras_to_mri:
  assumes "coord_unit (st ! r) = ''tkras''" and "intended_for (st ! r) = Some p"
    and "images env p = Some img"
    and "np_linalg_inv env (fst (vox2ras_tkr_or_fallback img)) = Inr m"
  shows "convert_coord_space env st r ''mri'' subjects_dir verbose =
           recreate_sensors st (st ! r) (apply_affine env m (coords (st ! r))) ''mri''
             (snd (vox2ras_tkr_or_fallback img) @
              (if verbose then [Print_using_vox2tkras (fst (vox2ras_tkr_or_fallback img))]
               else []))"
  using assms
  by (simp add: convert_coord_space_def MAPPING_COORD_FRAMES_def nb_load_def to_mri_coords_def
        from_mri_coords_def handle_tkras_trans_def get_coords_def split_beta Let_def)

text \<open>
  A successful call that is no short-circuit went from \<^verbatim>\<open>mri\<close> to \<^verbatim>\<open>tkras\<close> or
  back, with an image that loads; what it returns is one function of a point applied to every
  row.
\<close>

lemma space_success_cases:
  assumes "to_coord \<noteq> coord_unit (st ! r)"
    and "result (convert_coord_space env st r to_coord subjects_dir verbose) = Inr r'"
  shows "\<exists>p img. intended_for (st ! r) = Some p \<and> images env p = Some img \<and>
           (coord_unit (st ! r) = ''mri'' \<and> to_coord = ''tkras'' \<or>
            coord_unit (st ! r) = ''tkras'' \<and> to_coord = ''mri'' \<and>
            (\<exists>m. np_linalg_inv env (fst (vox2ras_tkr_or_fallback img)) = Inr m))"
proof -
  let ?s = "st ! r"
  from assms have t: "to_coord \<in> set MAPPING_COORD_FRAMES"
    and u: "coord_unit ?s \<in> set MAPPING_COORD_FRAMES"
    by (auto simp: convert_coord_space_def Let_def split: if_splits)
  from assms t u obtain p where p: "intended_for ?s = Some p"
    by (auto simp: convert_coord_space_def Let_def split: if_splits option.splits)
  from assms t u p obtain img where img: "nb_load env (Some p) = Inr img"
    by (auto simp: convert_coord_space_def Let_def split: if_splits sum.splits)
  then have im: "images env p = Some img"
    by (auto simp: nb_load_def split: option.splits)
  obtain res1 ev1 where m1: "to_mri_coords env ?s p img subjects_dir verbose = (res1, ev1)"
    by (metis surj_pair)
  from assms t u p img m1 obtain c1 where c1: "res1 = Inr c1"
    by (auto simp: convert_coord_space_def Let_def split: if_splits sum.splits)
  obtain res2 ev2 where
    m2: "from_mri_coords env ?s c1 to_coord p img subjects_dir verbose = (res2, ev2)"
    by (metis surj_pair)
  from assms t u p img m1 c1 m2 obtain c2 where c2: "res2 = Inr c2"
    by (auto simp: convert_coord_space_def Let_def split: if_splits sum.splits)
  from m1 c1 have u': "coord_unit ?s \<noteq> ''mni''"
    by (auto simp: to_mri_coords_def)
  from m2 c2 have t': "to_coord \<noteq> ''mni''"
    by (auto simp: from_mri_coords_def)
  from t t' u u' assms(1) have
    "coord_unit ?s = ''mri'' \<and> to_coord = ''tkras'' \<or>
     coord_unit ?s = ''tkras'' \<and> to_coord = ''mri''"
    by (auto simp: MAPPING_COORD_FRAMES_def)
  moreover have "\<exists>m. np_linalg_inv env (fst (vox2ras_tkr_or_fallback img)) = Inr m"
    if "coord_unit ?s = ''tkras''"
    using that m1 c1
    by (auto simp: to_mri_coords_def handle_tkras_trans_def Let_def split_beta
             split: sum.splits if_splits)
  ultimately show ?thesis
    using p im by blast
qed

lemma space_success:
  assumes "to_coord \<noteq> coord_unit (st ! r)"
    and "result (convert_coord_space env st r to_coord subjects_dir verbose) = Inr r'"
  shows "\<exists>f evs. \<forall>st0 r0.
           coord_unit (st0 ! r0) = coord_unit (st ! r) \<and>
           intended_for (st0 ! r0) = intended_for (st ! r) \<longrightarrow>
           convert_coord_space env st0 r0 to_coord subjects_dir verbose =
             recreate_sensors st0 (st0 ! r0)
               (FloatArray (map f (points (coords (st0 ! r0))))) to_coord evs"
proof -
  from space_success_cases [OF assms] obtain p img where
    p: "intended_for (st ! r) = Some p" and im: "images env p = Some img" and
    c: "coord_unit (st ! r) = ''mri'' \<and> to_coord = ''tkras'' \<or>
        coord_unit (st ! r) = ''tkras'' \<and> to_coord = ''mri'' \<and>
        (\<exists>m. np_linalg_inv env (fst (vox2ras_tkr_or_fallback img)) = Inr m)"
    by blast
  let ?m = "fst (vox2ras_tkr_or_fallback img)"
  let ?evs = "snd (vox2ras_tkr_or_fallback img) @
              (if verbose then [Print_using_vox2tkras ?m] else [])"
  from c show ?thesis
  proof
    assume a: "coord_unit (st ! r) = ''mri'' \<and> to_coord = ''tkras''"
    show ?thesis
      using a p im
      by (intro exI [of _ "np_dot_affine env ?m"] exI [of _ ?evs])
         (simp add: space_mri_to_tkras apply_affine_def)
  next
    assume a: "coord_unit (st ! r) = ''tkras'' \<and> to_coord = ''mri'' \<and>
        (\<exists>m. np_linalg_inv env (fst (vox2ras_tkr_or_fallback img)) = Inr m)"
    then obtain m where m: "np_linalg_inv env ?m = Inr m" by blast
    show ?thesis
      using a p im m
      by (intro exI [of _ "np_dot_affine env m"] exI [of _ ?evs])
         (simp add: space_tkras_to_mri apply_affine_def)
  qed
qed

text \<open>
  No conversion to or from \<^verbatim>\<open>mni\<close> returns.
\<close>

lemma space_mni_raises:
  assumes "to_coord \<noteq> coord_unit (st ! r)"
    and "to_coord = ''mni'' \<or> coord_unit (st ! r) = ''mni''"
  shows "\<exists>e. result (convert_coord_space env st r to_coord subjects_dir verbose) = Inl e"
proof (cases "result (convert_coord_space env st r to_coord subjects_dir verbose)")
  case (Inl e)
  then show ?thesis by blast
next
  case (Inr r')
  from space_success_cases [OF assms(1) Inr] assms(2) show ?thesis
    by auto
qed

text \<open>
  The round trips between \<^verbatim>\<open>mri\<close> and \<^verbatim>\<open>tkras\<close>, where the inverse of the
  voxel-tkras matrix and the two products are computed exactly: the coordinates returned have
  the values of the original ones.
\<close>

lemma frame_round_trip_exact_from_mri:
  assumes "coord_unit (st ! r) = ''mri''"
    and "intended_for (st ! r) = Some p" and "images env p = Some img"
    and "fst (vox2ras_tkr_or_fallback img) = fmat m" and "is_affine m"
    and "exact_inverse m = Some m'" and "np_linalg_inv env (fmat m) = Inr (fmat m')"
    and "dot_exact env m (coords (st ! r))"
    and "dot_exact env m' (apply_affine env (fmat m) (coords (st ! r)))"
  shows "result (convert_coord_space env st r ''tkras'' sd v1) = Inr (length st) \<and>
         result (convert_coord_space env (store (convert_coord_space env st r ''tkras'' sd v1))
                   (length st) ''mri'' sd v2) = Inr (Suc (length st)) \<and>
         coords (store (convert_coord_space env
                   (store (convert_coord_space env st r ''tkras'' sd v1))
                   (length st) ''mri'' sd v2) ! Suc (length st)) =
           FloatArray (map (\<lambda>p. fvec (point_real p)) (points (coords (st ! r))))"
proof -
  let ?s = "st ! r"
  let ?evs = "\<lambda>v. snd (vox2ras_tkr_or_fallback img) @
                  (if v then [Print_using_vox2tkras (fmat m)] else [])"
  let ?o1 = "convert_coord_space env st r ''tkras'' sd v1"
  let ?o2 = "convert_coord_space env (store ?o1) (length st) ''mri'' sd v2"
  let ?c1 = "apply_affine env (fmat m) (coords ?s)"
  let ?s1 = "?s\<lparr>coords := ?c1, coord_unit := ''tkras''\<rparr>"
  have inv: "np_linalg_inv env (fst (vox2ras_tkr_or_fallback img)) = Inr (fmat m')"
    using assms(4,7) by simp
  have o1: "?o1 = recreate_sensors st ?s ?c1 ''tkras'' (?evs v1)"
    using space_mri_to_tkras [OF assms(1-3), of sd v1] assms(4) by simp
  have st1: "store ?o1 = st @ [?s1]" by (simp add: o1)
  have s1: "store ?o1 ! length st = ?s1" by (simp add: st1)
  have o2: "?o2 = recreate_sensors (store ?o1) ?s1 (apply_affine env (fmat m') ?c1) ''mri''
                    (?evs v2)"
    using space_tkras_to_mri [of "store ?o1" "length st" p env img "fmat m'" sd v2]
      assms(2,3,4) inv
    by (simp add: s1)
  have r1: "result ?o1 = Inr (length st)" by (simp add: o1)
  have r2: "result ?o2 = Inr (Suc (length st))"
    by (simp only: o2) (simp add: st1)
  have c2: "coords (store ?o2 ! Suc (length st)) = apply_affine env (fmat m') ?c1"
    by (simp only: o2) (simp add: st1 nth_append)
  have "apply_affine env (fmat m') ?c1 =
          FloatArray (map (\<lambda>p. fvec (point_real p)) (points (coords ?s)))"
    by (rule apply_affine_there_and_back [OF assms(6,5) _ assms(8,9)]) simp
  with r1 r2 c2 show ?thesis by simp
qed

lemma frame_round_trip_exact_from_tkras:
  assumes "coord_unit (st ! r) = ''tkras''"
    and "intended_for (st ! r) = Some p" and "images env p = Some img"
    and "fst (vox2ras_tkr_or_fallback img) = fmat m" and "is_affine m"
    and "exact_inverse m = Some m'" and "np_linalg_inv env (fmat m) = Inr (fmat m')"
    and "dot_exact env m' (coords (st ! r))"
    and "dot_exact env m (apply_affine env (fmat m') (coords (st ! r)))"
  shows "result (convert_coord_space env st r ''mri'' sd v1) = Inr (length st) \<and>
         result (convert_coord_space env (store (convert_coord_space env st r ''mri'' sd v1))
                   (length st) ''tkras'' sd v2) = Inr (Suc (length st)) \<and>
         coords (store (convert_coord_space env
                   (store (convert_coord_space env st r ''mri'' sd v1))
                   (length st) ''tkras'' sd v2) ! Suc (length st)) =
           FloatArray (map (\<lambda>p. fvec (point_real p)) (points (coords (st ! r))))"
proof -
  let ?s = "st ! r"
  let ?evs = "\<lambda>v. snd (vox2ras_tkr_or_fallback img) @
                  (if v then [Print_using_vox2tkras (fmat m)] else [])"
  let ?o1 = "convert_coord_space env st r ''mri'' sd v1"
  let ?o2 = "convert_coord_space env (store ?o1) (length st) ''tkras'' sd v2"
  let ?c1 = "apply_affine env (fmat m') (coords ?s)"
  let ?s1 = "?s\<lparr>coords := ?c1, coord_unit := ''mri''\<rparr>"
  have inv: "np_linalg_inv env (fst (vox2ras_tkr_or_fallback img)) = Inr (fmat m')"
    using assms(4,7) by simp
  have o1: "?o1 = recreate_sensors st ?s ?c1 ''mri'' (?evs v1)"
    using space_tkras_to_mri [OF assms(1-3) inv, of sd v1] assms(4) by simp
  have st1: "store ?o1 = st @ [?s1]" by (simp add: o1)
  have s1: "store ?o1 ! length st = ?s1" by (simp add: st1)
  have o2: "?o2 = recreate_sensors (store ?o1) ?s1 (apply_affine env (fmat m) ?c1) ''tkras''
                    (?evs v2)"
    using space_mri_to_tkras [of "store ?o1" "length st" p env img sd v2] assms(2,3,4)
    by (simp add: s1)
  have r1: "result ?o1 = Inr (length st)" by (simp add: o1)
  have r2: "result ?o2 = Inr (Suc (length st))"
    by (simp only: o2) (simp add: st1)
  have c2: "coords (store ?o2 ! Suc (length st)) = apply_affine env (fmat m) ?c1"
    by (simp only: o2) (simp add: st1 nth_append)
  have "apply_affine env (fmat m) ?c1 =
          FloatArray (map (\<lambda>p. fvec (point_real p)) (points (coords ?s)))"
    by (rule apply_affine_there_and_back [OF assms(6,5) _ assms(8,9)]) simp
  with r1 r2 c2 show ?thesis by simp
qed

text \<open>
  C2. The round trip through \<^verbatim>\<open>mni\<close> does not start: on the example subject, whose
  registration data match the image, the conversion from \<^verbatim>\<open>mri\<close> to \<^verbatim>\<open>mni\<close>
  raises the \<^verbatim>\<open>TypeError\<close> of \<^verbatim>\<open>np.isclose\<close> in the voxel-MNI resolver.
\<close>

theorem frame_round_trip_through_mni_raises:
  "convert_coord_space example_env [example_sensors] 0 ''mni'' (Some ''fs'') True =
     \<lparr>result = Inl IscloseTypeError, store = [example_sensors], events = []\<rparr>"
  by (simp add: convert_coord_space_def MAPPING_COORD_FRAMES_def example_defs nb_load_def
        raise_def to_mri_coords_def from_mri_coords_def handle_mni_trans_def op_join_def
        join_component_def np_isclose_def get_coords_def)

text \<open>
  C8. For sensors tagged \<^verbatim>\<open>mni\<close> on the example subject, the single call to
  \<^verbatim>\<open>tkras\<close> and the first of the two calls, to \<^verbatim>\<open>mri\<close>, both raise the
  \<^verbatim>\<open>TypeError\<close> of \<^verbatim>\<open>np.isclose\<close> in the voxel-MNI resolver: no coordinates
  are produced on either side.
\<close>

theorem mni_to_tkras_raises:
  "convert_coord_space example_env [example_sensors\<lparr>coord_unit := ''mni''\<rparr>] 0 ''tkras''
       (Some ''fs'') True =
     \<lparr>result = Inl IscloseTypeError, store = [example_sensors\<lparr>coord_unit := ''mni''\<rparr>],
      events = []\<rparr> \<and>
   convert_coord_space example_env [example_sensors\<lparr>coord_unit := ''mni''\<rparr>] 0 ''mri''
       (Some ''fs'') True =
     \<lparr>result = Inl IscloseTypeError, store = [example_sensors\<lparr>coord_unit := ''mni''\<rparr>],
      events = []\<rparr>"
  by (simp add: convert_coord_space_def MAPPING_COORD_FRAMES_def example_defs nb_load_def
        raise_def to_mri_coords_def from_mri_coords_def handle_mni_trans_def op_join_def
        join_component_def np_isclose_def get_coords_def)

section \<open>The object returned\<close>

text \<open>
  C9, as stated, fails: a call whose target is the current tag succeeds and returns the
  reference it was given, not a new object; the store has no new object.
\<close>

theorem short_circuit_returns_input_counterexample:
  "0 < length [example_sensors] \<and>
   result (convert_coord_units example_env [example_sensors] 0 ''mri'' True True) = Inr 0 \<and>
   store (convert_coord_units example_env [example_sensors] 0 ''mri'' True True) =
     [example_sensors] \<and>
   result (convert_coord_space example_env [example_sensors] 0 ''mri'' None True) = Inr 0 \<and>
   store (convert_coord_space example_env [example_sensors] 0 ''mri'' None True) =
     [example_sensors]"
  by (simp add: convert_coord_units_def convert_coord_space_def Let_def example_sensors_def
        MAPPING_COORD_FRAMES_def)

lemma points_round_astype_int:
  "points (round_astype_int (FloatArray (map f ps))) =
     map (\<lambda>p. IntPoint (case f p of
                 (x, y, z) \<Rightarrow> (astype_int (np_rint x), astype_int (np_rint y),
                               astype_int (np_rint z)))) ps"
  by (simp add: comp_def split_beta)

lemma units_copy:
  assumes "r < length st" and "to_coord \<noteq> coord_unit (st ! r)"
    and "result (convert_coord_units env st r to_coord do_round verbose) = Inr r'"
  shows "r' = length st \<and>
         (\<exists>g. \<forall>c0. \<exists>c1. points c1 = map g (points c0) \<and>
            store (convert_coord_units env (st[r := (st ! r)\<lparr>coords := c0\<rparr>]) r to_coord
                     do_round verbose) =
              st[r := (st ! r)\<lparr>coords := c0\<rparr>] @
                [(st ! r)\<lparr>coords := c1, coord_unit := to_coord\<rparr>])"
proof -
  from units_success [OF assms(2,3)] obtain f where
    a: "\<And>st0 r0 b v.
           coord_unit (st0 ! r0) = coord_unit (st ! r) \<and>
           intended_for (st0 ! r0) = intended_for (st ! r) \<Longrightarrow>
           convert_coord_units env st0 r0 to_coord b v =
             recreate_sensors st0 (st0 ! r0)
               (if b then round_astype_int (FloatArray (map f (points (coords (st0 ! r0)))))
                else FloatArray (map f (points (coords (st0 ! r0)))))
               to_coord
               (if v then [Print_converting (coord_unit (st ! r)) to_coord
                             (intended_for (st ! r))]
                else [])"
    by blast
  have r': "r' = length st"
    using assms(3) a [of st r do_round verbose] by simp
  let ?g = "\<lambda>p. if do_round
                 then IntPoint (case f p of
                        (x, y, z) \<Rightarrow> (astype_int (np_rint x), astype_int (np_rint y),
                                      astype_int (np_rint z)))
                 else FloatPoint (f p)"
  have "\<exists>c1. points c1 = map ?g (points c0) \<and>
            store (convert_coord_units env (st[r := (st ! r)\<lparr>coords := c0\<rparr>]) r to_coord
                     do_round verbose) =
              st[r := (st ! r)\<lparr>coords := c0\<rparr>] @
                [(st ! r)\<lparr>coords := c1, coord_unit := to_coord\<rparr>]" for c0
  proof -
    let ?st0 = "st[r := (st ! r)\<lparr>coords := c0\<rparr>]"
    have s0: "?st0 ! r = (st ! r)\<lparr>coords := c0\<rparr>"
      using assms(1) by simp
    let ?c1 = "if do_round then round_astype_int (FloatArray (map f (points c0)))
               else FloatArray (map f (points c0))"
    have "convert_coord_units env ?st0 r to_coord do_round verbose =
            recreate_sensors ?st0 (?st0 ! r) ?c1 to_coord
               (if verbose then [Print_converting (coord_unit (st ! r)) to_coord
                             (intended_for (st ! r))]
                else [])"
      using a [of ?st0 r do_round verbose] by (simp add: s0)
    then have "store (convert_coord_units env ?st0 r to_coord do_round verbose) =
                 ?st0 @ [(st ! r)\<lparr>coords := ?c1, coord_unit := to_coord\<rparr>]"
      by (simp add: s0)
    moreover have "points ?c1 = map ?g (points c0)"
      by (simp add: points_round_astype_int comp_def)
    ultimately show ?thesis by blast
  qed
  with r' show ?thesis by blast
qed

lemma space_copy:
  assumes "r < length st" and "to_coord \<noteq> coord_unit (st ! r)"
    and "result (convert_coord_space env st r to_coord subjects_dir verbose) = Inr r'"
  shows "r' = length st \<and>
         (\<exists>g. \<forall>c0. \<exists>c1. points c1 = map g (points c0) \<and>
            store (convert_coord_space env (st[r := (st ! r)\<lparr>coords := c0\<rparr>]) r to_coord
                     subjects_dir verbose) =
              st[r := (st ! r)\<lparr>coords := c0\<rparr>] @
                [(st ! r)\<lparr>coords := c1, coord_unit := to_coord\<rparr>])"
proof -
  from space_success [OF assms(2,3)] obtain f evs where
    a: "\<And>st0 r0.
           coord_unit (st0 ! r0) = coord_unit (st ! r) \<and>
           intended_for (st0 ! r0) = intended_for (st ! r) \<Longrightarrow>
           convert_coord_space env st0 r0 to_coord subjects_dir verbose =
             recreate_sensors st0 (st0 ! r0)
               (FloatArray (map f (points (coords (st0 ! r0))))) to_coord evs"
    by blast
  have r': "r' = length st"
    using assms(3) a [of st r] by simp
  have "\<exists>c1. points c1 = map (\<lambda>p. FloatPoint (f p)) (points c0) \<and>
            store (convert_coord_space env (st[r := (st ! r)\<lparr>coords := c0\<rparr>]) r to_coord
                     subjects_dir verbose) =
              st[r := (st ! r)\<lparr>coords := c0\<rparr>] @
                [(st ! r)\<lparr>coords := c1, coord_unit := to_coord\<rparr>]" for c0
  proof -
    let ?st0 = "st[r := (st ! r)\<lparr>coords := c0\<rparr>]"
    have s0: "?st0 ! r = (st ! r)\<lparr>coords := c0\<rparr>"
      using assms(1) by simp
    have "convert_coord_space env ?st0 r to_coord subjects_dir verbose =
            recreate_sensors ?st0 (?st0 ! r) (FloatArray (map f (points c0))) to_coord evs"
      using a [of ?st0 r] by (simp add: s0)
    then have "store (convert_coord_space env ?st0 r to_coord subjects_dir verbose) =
                 ?st0 @ [(st ! r)\<lparr>coords := FloatArray (map f (points c0)),
                                  coord_unit := to_coord\<rparr>]"
      by (simp add: s0)
    moreover have "points (FloatArray (map f (points c0))) =
                     map (\<lambda>p. FloatPoint (f p)) (points c0)"
      by (simp add: comp_def)
    ultimately show ?thesis by blast
  qed
  with r' show ?thesis by blast
qed

lemma units_short_circuit:
  assumes "to_coord = coord_unit (st ! r)"
    and "result (convert_coord_units env st r to_coord do_round verbose) = Inr r'"
  shows "r' = r \<and> store (convert_coord_units env st r to_coord do_round verbose) = st"
proof -
  from assms(2) have "to_coord \<in> set [''mri'', ''mm'']"
    by (auto simp: convert_coord_units_def Let_def split: if_splits)
  with assms show ?thesis
    by (auto simp: convert_coord_units_def Let_def)
qed

lemma space_short_circuit:
  assumes "to_coord = coord_unit (st ! r)"
    and "result (convert_coord_space env st r to_coord subjects_dir verbose) = Inr r'"
  shows "r' = r \<and> store (convert_coord_space env st r to_coord subjects_dir verbose) = st"
proof -
  from assms(2) have "to_coord \<in> set MAPPING_COORD_FRAMES"
    by (auto simp: convert_coord_space_def Let_def split: if_splits)
  with assms show ?thesis
    by (auto simp: convert_coord_space_def Let_def)
qed

lemma copy_keeps_store:
  assumes "r < length st"
    and "\<forall>c0. \<exists>c1. points c1 = map g (points c0) \<and>
            store (call (st[r := (st ! r)\<lparr>coords := c0\<rparr>])) =
              st[r := (st ! r)\<lparr>coords := c0\<rparr>] @
                [(st ! r)\<lparr>coords := c1, coord_unit := to_coord\<rparr>]"
  shows "take (length st) (store (call st)) = st"
proof -
  have "st[r := (st ! r)\<lparr>coords := coords (st ! r)\<rparr>] = st"
    by (simp add: list_update_id)
  with assms(2) [rule_format, of "coords (st ! r)"] show ?thesis
    by auto
qed

text \<open>
  C9, amended. After a successful call of either converter the objects of the store, the
  sensors passed in among them, are as they were. When the target is the current tag, the
  reference returned is the one passed in. When it differs, the reference returned is that of
  a new object, which is the object passed in with the coordinates and the tag replaced and
  every other field the same; and there is one function \<open>g\<close> of a point such that,
  whatever the coordinates of the object passed in, the rows of the new coordinates are the
  rows of the old ones under \<open>g\<close>, each in its place: the number of points and their
  order are kept.
\<close>

theorem conversion_returns_copy:
  assumes "r < length st"
  shows "(result (convert_coord_units env st r to_coord do_round verbose) = Inr r' \<longrightarrow>
            take (length st) (store (convert_coord_units env st r to_coord do_round verbose)) =
              st \<and>
            (if to_coord = coord_unit (st ! r)
             then r' = r \<and> store (convert_coord_units env st r to_coord do_round verbose) = st
             else r' = length st \<and> r' \<noteq> r \<and>
               (\<exists>g. \<forall>c0. \<exists>c1. points c1 = map g (points c0) \<and>
                  store (convert_coord_units env (st[r := (st ! r)\<lparr>coords := c0\<rparr>]) r
                           to_coord do_round verbose) =
                    st[r := (st ! r)\<lparr>coords := c0\<rparr>] @
                      [(st ! r)\<lparr>coords := c1, coord_unit := to_coord\<rparr>]))) \<and>
         (result (convert_coord_space env st r to_coord subjects_dir verbose) = Inr r' \<longrightarrow>
            take (length st) (store (convert_coord_space env st r to_coord subjects_dir
                                       verbose)) = st \<and>
            (if to_coord = coord_unit (st ! r)
             then r' = r \<and>
                  store (convert_coord_space env st r to_coord subjects_dir verbose) = st
             else r' = length st \<and> r' \<noteq> r \<and>
               (\<exists>g. \<forall>c0. \<exists>c1. points c1 = map g (points c0) \<and>
                  store (convert_coord_space env (st[r := (st ! r)\<lparr>coords := c0\<rparr>]) r
                           to_coord subjects_dir verbose) =
                    st[r := (st ! r)\<lparr>coords := c0\<rparr>] @
                      [(st ! r)\<lparr>coords := c1, coord_unit := to_coord\<rparr>])))"
proof (intro conjI impI)
  assume s: "result (convert_coord_units env st r to_coord do_round verbose) = Inr r'"
  show "take (length st) (store (convert_coord_units env st r to_coord do_round verbose)) = st"
  proof (cases "to_coord = coord_unit (st ! r)")
    case True
    from units_short_circuit [OF True s] show ?thesis by simp
  next
    case False
    from units_copy [OF assms False s] obtain g where
      "\<forall>c0. \<exists>c1. points c1 = map g (points c0) \<and>
            store (convert_coord_units env (st[r := (st ! r)\<lparr>coords := c0\<rparr>]) r to_coord
                     do_round verbose) =
              st[r := (st ! r)\<lparr>coords := c0\<rparr>] @
                [(st ! r)\<lparr>coords := c1, coord_unit := to_coord\<rparr>]"
      by blast
    then show ?thesis
      by (rule copy_keeps_store
            [OF assms, where call = "\<lambda>st0. convert_coord_units env st0 r to_coord do_round verbose"])
  qed
  show "if to_coord = coord_unit (st ! r)
        then r' = r \<and> store (convert_coord_units env st r to_coord do_round verbose) = st
        else r' = length st \<and> r' \<noteq> r \<and>
          (\<exists>g. \<forall>c0. \<exists>c1. points c1 = map g (points c0) \<and>
             store (convert_coord_units env (st[r := (st ! r)\<lparr>coords := c0\<rparr>]) r
                      to_coord do_round verbose) =
               st[r := (st ! r)\<lparr>coords := c0\<rparr>] @
                 [(st ! r)\<lparr>coords := c1, coord_unit := to_coord\<rparr>])"
  proof (cases "to_coord = coord_unit (st ! r)")
    case True
    with units_short_circuit [OF True s] show ?thesis by simp
  next
    case False
    with units_copy [OF assms False s] assms show ?thesis by auto
  qed
next
  assume s: "result (convert_coord_space env st r to_coord subjects_dir verbose) = Inr r'"
  show "take (length st) (store (convert_coord_space env st r to_coord subjects_dir verbose)) = st"
  proof (cases "to_coord = coord_unit (st ! r)")
    case True
    from space_short_circuit [OF True s] show ?thesis by simp
  next
    case False
    from space_copy [OF assms False s] obtain g where
      "\<forall>c0. \<exists>c1. points c1 = map g (points c0) \<and>
            store (convert_coord_space env (st[r := (st ! r)\<lparr>coords := c0\<rparr>]) r to_coord
                     subjects_dir verbose) =
              st[r := (st ! r)\<lparr>coords := c0\<rparr>] @
                [(st ! r)\<lparr>coords := c1, coord_unit := to_coord\<rparr>]"
      by blast
    then show ?thesis
      by (rule copy_keeps_store
            [OF assms, where call = "\<lambda>st0. convert_coord_space env st0 r to_coord subjects_dir verbose"])
  qed
  show "if to_coord = coord_unit (st ! r)
        then r' = r \<and> store (convert_coord_space env st r to_coord subjects_dir verbose) = st
        else r' = length st \<and> r' \<noteq> r \<and>
          (\<exists>g. \<forall>c0. \<exists>c1. points c1 = map g (points c0) \<and>
             store (convert_coord_space env (st[r := (st ! r)\<lparr>coords := c0\<rparr>]) r
                      to_coord subjects_dir verbose) =
               st[r := (st ! r)\<lparr>coords := c0\<rparr>] @
                 [(st ! r)\<lparr>coords := c1, coord_unit := to_coord\<rparr>])"
  proof (cases "to_coord = coord_unit (st ! r)")
    case True
    with space_short_circuit [OF True s] show ?thesis by simp
  next
    case False
    with space_copy [OF assms False s] assms show ?thesis by auto
  qed
qed

theorem conversion_returns_copy_witness:
  "0 < length [example_sensors] \<and>
   result (convert_coord_units example_env [example_sensors] 0 ''mm'' True True) = Inr 1 \<and>
   result (convert_coord_space example_env [example_sensors] 0 ''tkras'' None True) = Inr 1 \<and>
   take (length [example_sensors])
     (store (convert_coord_units example_env [example_sensors] 0 ''mm'' True True)) =
     [example_sensors] \<and>
   take (length [example_sensors])
     (store (convert_coord_space example_env [example_sensors] 0 ''tkras'' None True)) =
     [example_sensors] \<and>
   store (convert_coord_space example_env [example_sensors] 0 ''tkras'' None True) =
     [example_sensors,
      example_sensors\<lparr>coords := FloatArray [(Finite 0, Finite 0, Finite 0),
                                             (Finite 127, Finite (- 125), Finite 126)],
                      coord_unit := ''tkras''\<rparr>]"
proof -
  let ?cu = "convert_coord_units example_env [example_sensors] 0 ''mm'' True True"
  let ?cs = "convert_coord_space example_env [example_sensors] 0 ''tkras'' None True"
  have h1: "0 < length [example_sensors]" by simp
  have e: "?cs =
     \<lparr>result = Inr 1,
      store = [example_sensors,
               example_sensors\<lparr>coords := FloatArray [(Finite 0, Finite 0, Finite 0),
                                             (Finite 127, Finite (- 125), Finite 126)],
                               coord_unit := ''tkras''\<rparr>],
      events = [Warn_vox2ras_tkr_unavailable, Print_using_vox2tkras fallback_vox2ras_tkr]\<rparr>"
    by (simp add: convert_coord_space_def MAPPING_COORD_FRAMES_def example_defs nb_load_def
          to_mri_coords_def from_mri_coords_def handle_tkras_trans_def
          vox2ras_tkr_or_fallback_def fallback_vox2ras_tkr_def fallback_matrix_def
          get_coords_def recreate_sensors_def set_coords_def apply_affine_def)
  have h2: "result ?cu = Inr 1"
    using example_mm_rounded_eq by (simp add: example_mm_rounded_def)
  have h3: "result ?cs = Inr 1"
    by (simp add: e)
  have t1: "take (length [example_sensors]) (store ?cu) = [example_sensors]"
    using conversion_returns_copy [OF h1, where env = example_env and to_coord = "''mm''"
        and do_round = True and verbose = True and r' = 1] h2
    by blast
  have t2: "take (length [example_sensors]) (store ?cs) = [example_sensors]"
    using conversion_returns_copy [OF h1, where env = example_env and to_coord = "''tkras''"
        and subjects_dir = None and verbose = True and r' = 1] h3
    by blast
  show ?thesis
    using h1 h2 h3 t1 t2 by (simp add: e)
qed

end
